theory Spec2Isabelle
  imports Main
begin

section \<open>The relay: directory of connected users and forwarding (server/server.js)\<close>

type_synonym identity = string
type_synonym socket_id = string
type_synonym candidate = string

text \<open>An \<^verbatim>\<open>RTCSessionDescriptionInit\<close>: \<^verbatim>\<open>{type, sdp}\<close>. The relay passes it on unread.\<close>

datatype description = Description (sdp_type: string) (sdp: string)

text \<open>
  \<^verbatim>\<open>connectedUsers\<close> is a JavaScript \<^verbatim>\<open>Map\<close> from socket id to user id. A
  \<^verbatim>\<open>Map\<close> iterates in insertion order and \<^verbatim>\<open>find\<close> returns the first match, so
  the map is an association list in insertion order. \<^verbatim>\<open>set\<close> on a key that is present
  replaces the value in place, on a new key it appends; \<^verbatim>\<open>delete\<close> removes the key.
\<close>

type_synonym directory = "(socket_id \<times> identity) list"

definition Map_has :: "socket_id \<Rightarrow> directory \<Rightarrow> bool" where
  "Map_has k m = (k \<in> set (map fst m))"

definition Map_set :: "socket_id \<Rightarrow> identity \<Rightarrow> directory \<Rightarrow> directory" where
  "Map_set k v m =
     (if Map_has k m then map (\<lambda>(k', v'). if k' = k then (k', v) else (k', v')) m
      else m @ [(k, v)])"

definition Map_delete :: "socket_id \<Rightarrow> directory \<Rightarrow> directory" where
  "Map_delete k m = filter (\<lambda>(k', v'). k' \<noteq> k) m"

definition Map_values :: "directory \<Rightarrow> identity list" where
  "Map_values m = map snd m"

text \<open>The keys of a \<^verbatim>\<open>Map\<close> are pairwise different.\<close>

definition wf_directory :: "directory \<Rightarrow> bool" where
  "wf_directory m = distinct (map fst m)"

datatype message_data = MessageData (sender: identity) (receiver: identity) (content: string)

text \<open>What a handler sends: the payload of each event the relay emits.\<close>

datatype payload =
    SyncMessages "string list"
  | SyncContacts "string list"
  | OnlineUsers "identity list"
  | OfferFrom description identity
  | AnswerFrom description identity
  | CandidateFrom candidate "identity option"
  | CallOfferFrom description identity bool
  | ReceiveMessage message_data

text \<open>
  The outputs of a handler, in program order: \<^verbatim>\<open>io.to(id).emit\<close> and
  \<^verbatim>\<open>socket.emit\<close> reach one socket, \<^verbatim>\<open>io.emit\<close> reaches every socket, and
  \<^verbatim>\<open>console.log\<close> stays on the relay.
\<close>

datatype out =
    ToSocket socket_id string payload
  | ToAll string payload
  | ConsoleLog string

record relay =
  connectedUsers :: directory
  messages :: "identity \<rightharpoonup> string list"
  userContacts :: "identity \<rightharpoonup> string list"
  socketUserId :: "socket_id \<rightharpoonup> identity"

definition get_or_empty :: "(identity \<rightharpoonup> string list) \<Rightarrow> identity \<Rightarrow> string list" where
  "get_or_empty m k = (case m k of None \<Rightarrow> [] | Some xs \<Rightarrow> xs)"

text \<open>
  The loop of the \<^verbatim>\<open>join\<close> handler. It walks the entries of the map and deletes from
  the map while walking. Deleting the entry under the cursor leaves the other entries of a
  \<^verbatim>\<open>Map\<close> iterator in place, so the walk sees the entries the map had at the start:
  the first argument is that list, the last one the map being changed.
\<close>

fun evict_loop :: "directory \<Rightarrow> socket_id \<Rightarrow> identity \<Rightarrow> directory \<Rightarrow> directory \<times> out list" where
  "evict_loop [] sid uid m = (m, [])"
| "evict_loop ((socketId, existingUserId) # es) sid uid m =
     (if existingUserId = uid \<and> socketId \<noteq> sid
      then (case evict_loop es sid uid (Map_delete socketId m) of
              (m', outs) \<Rightarrow> (m', ConsoleLog ''Removed duplicate connection for user'' # outs))
      else evict_loop es sid uid m)"

definition evict_stale :: "socket_id \<Rightarrow> identity \<Rightarrow> directory \<Rightarrow> directory" where
  "evict_stale sid uid m = fst (evict_loop m sid uid m)"

definition on_join :: "socket_id \<Rightarrow> identity \<Rightarrow> relay \<Rightarrow> relay \<times> out list" where
  "on_join sid userId st =
     (case evict_loop (connectedUsers st) sid userId (connectedUsers st) of
        (m, removed) \<Rightarrow>
          (let m' = Map_set sid userId m;
               userMessages = get_or_empty (messages st) userId;
               contacts = get_or_empty (userContacts st) userId;
               onlineUsers = Map_values m'
           in (st\<lparr>connectedUsers := m', socketUserId := (socketUserId st)(sid \<mapsto> userId)\<rparr>,
               [ConsoleLog ''Join request from socket''] @ removed @
               [ToSocket sid ''syncMessages'' (SyncMessages userMessages),
                ToSocket sid ''syncContacts'' (SyncContacts contacts),
                ToAll ''getOnlineUsers'' (OnlineUsers onlineUsers),
                ConsoleLog ''joined successfully'',
                ConsoleLog ''Currently connected users'',
                ConsoleLog ''Socket mapping''])))"

definition on_disconnect :: "socket_id \<Rightarrow> relay \<Rightarrow> relay \<times> out list" where
  "on_disconnect sid st =
     (let m = Map_delete sid (connectedUsers st)
      in (st\<lparr>connectedUsers := m\<rparr>,
          [ConsoleLog ''User disconnected:'',
           ToAll ''getOnlineUsers'' (OnlineUsers (Map_values m))]))"

text \<open>
  \<^verbatim>\<open>Array.from(connectedUsers.entries()).find(([socketId, userId]) => userId === target)?.[0]\<close>:
  the socket id of the first entry whose user is the target, \<^verbatim>\<open>undefined\<close> when there
  is none.
\<close>

definition resolve :: "directory \<Rightarrow> identity \<Rightarrow> socket_id option" where
  "resolve m target = map_option fst (find (\<lambda>(socketId, userId). userId = target) m)"

text \<open>
  \<^verbatim>\<open>if (targetSocketId)\<close>: \<^verbatim>\<open>undefined\<close> and the empty string are falsy.
\<close>

definition truthy :: "socket_id option \<Rightarrow> bool" where
  "truthy r = (case r of None \<Rightarrow> False | Some sid \<Rightarrow> sid \<noteq> [])"

definition on_webrtc_offer ::
    "socket_id \<Rightarrow> description \<Rightarrow> identity \<Rightarrow> identity \<Rightarrow> relay \<Rightarrow> relay \<times> out list" where
  "on_webrtc_offer sid offer target sender_id st =
     (case resolve (connectedUsers st) target of
        Some targetSocketId \<Rightarrow>
          if truthy (Some targetSocketId)
          then (st, [ConsoleLog ''WebRTC offer from:'',
                     ToSocket targetSocketId ''webrtc-offer'' (OfferFrom offer sender_id),
                     ConsoleLog ''Offer forwarded to target''])
          else (st, [ConsoleLog ''WebRTC offer from:'', ConsoleLog ''Target not found for offer:''])
      | None \<Rightarrow> (st, [ConsoleLog ''WebRTC offer from:'', ConsoleLog ''Target not found for offer:'']))"

definition on_webrtc_answer ::
    "socket_id \<Rightarrow> description \<Rightarrow> identity \<Rightarrow> identity \<Rightarrow> relay \<Rightarrow> relay \<times> out list" where
  "on_webrtc_answer sid answer target sender_id st =
     (case resolve (connectedUsers st) target of
        Some targetSocketId \<Rightarrow>
          if truthy (Some targetSocketId)
          then (st, [ConsoleLog ''WebRTC answer from:'',
                     ToSocket targetSocketId ''webrtc-answer'' (AnswerFrom answer sender_id),
                     ConsoleLog ''Answer forwarded to target''])
          else (st, [ConsoleLog ''WebRTC answer from:'', ConsoleLog ''Target not found for answer:''])
      | None \<Rightarrow> (st, [ConsoleLog ''WebRTC answer from:'', ConsoleLog ''Target not found for answer:'']))"

definition on_sendMessage :: "socket_id \<Rightarrow> message_data \<Rightarrow> relay \<Rightarrow> relay \<times> out list" where
  "on_sendMessage sid messageData st =
     (case resolve (connectedUsers st) (receiver messageData) of
        Some receiverSocketId \<Rightarrow>
          if truthy (Some receiverSocketId)
          then (st, [ConsoleLog ''Message received from:'', ConsoleLog ''Message content:'',
                     ConsoleLog ''Forwarding message to receiver socket:'',
                     ToSocket receiverSocketId ''receiveMessage'' (ReceiveMessage messageData)])
          else (st, [ConsoleLog ''Message received from:'', ConsoleLog ''Message content:'',
                     ConsoleLog ''Receiver not found online:'',
                     ConsoleLog ''Currently connected users:''])
      | None \<Rightarrow> (st, [ConsoleLog ''Message received from:'', ConsoleLog ''Message content:'',
                      ConsoleLog ''Receiver not found online:'',
                      ConsoleLog ''Currently connected users:'']))"

definition on_webrtc_ice_candidate ::
    "socket_id \<Rightarrow> candidate \<Rightarrow> identity \<Rightarrow> relay \<Rightarrow> relay \<times> out list" where
  "on_webrtc_ice_candidate sid cand target st =
     (case resolve (connectedUsers st) target of
        Some targetSocketId \<Rightarrow>
          if truthy (Some targetSocketId)
          then (st, [ConsoleLog ''ICE candidate from:'',
                     ToSocket targetSocketId ''webrtc-ice-candidate''
                       (CandidateFrom cand (socketUserId st sid))])
          else (st, [ConsoleLog ''ICE candidate from:''])
      | None \<Rightarrow> (st, [ConsoleLog ''ICE candidate from:'']))"

definition on_webrtc_call_offer ::
    "socket_id \<Rightarrow> description \<Rightarrow> identity \<Rightarrow> identity \<Rightarrow> bool \<Rightarrow> relay \<Rightarrow> relay \<times> out list" where
  "on_webrtc_call_offer sid offer target sender_id hasVideo st =
     (case resolve (connectedUsers st) target of
        Some targetSocketId \<Rightarrow>
          if truthy (Some targetSocketId)
          then (st, [ConsoleLog ''WebRTC call offer from:'',
                     ToSocket targetSocketId ''webrtc-call-offer''
                       (CallOfferFrom offer sender_id hasVideo)])
          else (st, [ConsoleLog ''WebRTC call offer from:''])
      | None \<Rightarrow> (st, [ConsoleLog ''WebRTC call offer from:'']))"

text \<open>The outputs that leave the relay: everything but the console.\<close>

fun is_emission :: "out \<Rightarrow> bool" where
  "is_emission (ConsoleLog _) = False"
| "is_emission _ = True"

definition emissions :: "out list \<Rightarrow> out list" where
  "emissions outs = filter is_emission outs"

text \<open>
  Whether some output reaches the given socket: an emit addressed to it or an emit to
  every socket.
\<close>

fun reaches :: "socket_id \<Rightarrow> out \<Rightarrow> bool" where
  "reaches sid (ToSocket sid' _ _) = (sid' = sid)"
| "reaches sid (ToAll _ _) = True"
| "reaches sid (ConsoleLog _) = False"

definition reported_to :: "socket_id \<Rightarrow> out list \<Rightarrow> bool" where
  "reported_to sid outs = list_ex (reaches sid) outs"

text \<open>The entries of the directory that belong to one identity.\<close>

definition entries_of :: "identity \<Rightarrow> directory \<Rightarrow> directory" where
  "entries_of uid m = filter (\<lambda>(socketId, userId). userId = uid) m"

definition empty_relay :: relay where
  "empty_relay = \<lparr>connectedUsers = [], messages = Map.empty, userContacts = Map.empty,
                  socketUserId = Map.empty\<rparr>"


section \<open>The client session (utils/webrtc.ts)\<close>

datatype error = DOMException string | TypeError string

datatype 'a outcome = Returned 'a | Threw error

datatype p2p_message =
  P2PMessage (msg_id: string) (msg_type: string) (msg_content: string)
    (msg_timestamp: int) (msg_sender: identity)

text \<open>
  The browser objects the manager holds. Of an \<^verbatim>\<open>RTCPeerConnection\<close> the manager
  reads \<^verbatim>\<open>signalingState\<close> and \<^verbatim>\<open>remoteDescription\<close>; everything else the
  browser keeps about the connection is the field \<open>internal\<close>. Of an
  \<^verbatim>\<open>RTCDataChannel\<close> it reads \<^verbatim>\<open>readyState\<close>.
\<close>

record peer_connection =
  signalingState :: string
  remoteDescription :: "description option"
  internal :: nat

record data_channel =
  label :: string
  readyState :: string

type_synonym track = string

datatype media_stream = MediaStream (getTracks: "track list")

text \<open>
  The browser is a parameter of the model. Each call that can fail either throws
  (\<open>Inl\<close>) or returns, with the connection as the call leaves it; which of the two is
  for the browser to decide, so the theorems below hold for every browser. That covers
  the calls the manager makes inside a \<^verbatim>\<open>try\<close> block, and \<^verbatim>\<open>dataChannel.send\<close>,
  which the manager calls outside any \<^verbatim>\<open>try\<close> and which throws on an open channel
  when the message is too large or cannot be queued. The calls that the Web standards
  give no error path (\<^verbatim>\<open>new RTCPeerConnection\<close> with this configuration,
  \<^verbatim>\<open>close\<close> on a channel or a connection, \<^verbatim>\<open>stop\<close> on a track) return, and so do
  the callbacks the caller registered.
\<close>

record browser =
  createDataChannel :: "peer_connection \<Rightarrow> string \<Rightarrow> error + data_channel"
  createOffer :: "peer_connection \<Rightarrow> error + description"
  createAnswer :: "peer_connection \<Rightarrow> error + description"
  setLocalDescription :: "peer_connection \<Rightarrow> description \<Rightarrow> error + peer_connection"
  setRemoteDescription :: "peer_connection \<Rightarrow> description \<Rightarrow> error + peer_connection"
  addIceCandidate :: "peer_connection \<Rightarrow> candidate \<Rightarrow> error + peer_connection"
  addTrack :: "peer_connection \<Rightarrow> track \<Rightarrow> error + peer_connection"
  getUserMedia :: "bool \<Rightarrow> error + media_stream"
  channelSend :: "data_channel \<Rightarrow> p2p_message \<Rightarrow> error + unit"

type_synonym callback = nat

text \<open>What the manager hands to \<^verbatim>\<open>socket.emit\<close>.\<close>

datatype signal =
    OfferTo description identity identity
  | AnswerTo description identity identity
  | CallOfferTo description identity identity bool

datatype pc_call =
    CreateDataChannel string
  | CreateOffer
  | CreateAnswer
  | SetLocalDescription description
  | SetRemoteDescription description
  | AddIceCandidate candidate
  | AddTrack track
  | ClosePc

datatype level = Log | Warn | Err

text \<open>
  Everything a method does to the outside, in program order. A call on the peer
  connection is recorded when it is made, whether it then throws or not. A message is
  recorded as sent (\<open>ChannelSend\<close>) when \<^verbatim>\<open>dataChannel.send\<close> has returned.
\<close>

datatype effect =
    Console level string
  | SocketEmit string signal
  | PcCall pc_call
  | GetUserMedia bool
  | ChannelSend p2p_message
  | ChannelClose
  | TrackStop track
  | Invoke callback string

record WebRTCManager =
  peerConnection :: "peer_connection option"
  dataChannel :: "data_channel option"
  localStream :: "media_stream option"
  onMessageCallback :: "callback option"
  onConnectionStateCallback :: "callback option"
  socket :: "socket_id option"
  localAddress :: identity
  remoteAddress :: identity
  isInitiator :: bool
  connectionState :: string
  pendingCandidates :: "candidate list"

type_synonym 'a step = "'a outcome \<times> WebRTCManager \<times> effect list"

definition outcome_of :: "'a step \<Rightarrow> 'a outcome" where
  "outcome_of r = fst r"

definition state_of :: "'a step \<Rightarrow> WebRTCManager" where
  "state_of r = fst (snd r)"

definition effects_of :: "'a step \<Rightarrow> effect list" where
  "effects_of r = snd (snd r)"

definition setupPeerConnection :: "WebRTCManager \<Rightarrow> WebRTCManager" where
  "setupPeerConnection s =
     s\<lparr>peerConnection := Some \<lparr>signalingState = ''stable'', remoteDescription = None, internal = 0\<rparr>\<rparr>"

definition new_WebRTCManager :: "socket_id option \<Rightarrow> identity \<Rightarrow> WebRTCManager" where
  "new_WebRTCManager sock addr =
     setupPeerConnection
       \<lparr>peerConnection = None, dataChannel = None, localStream = None,
        onMessageCallback = None, onConnectionStateCallback = None,
        socket = sock, localAddress = addr, remoteAddress = [],
        isInitiator = False, connectionState = ''new'', pendingCandidates = []\<rparr>"

definition setupDataChannel :: "data_channel \<Rightarrow> WebRTCManager \<Rightarrow> WebRTCManager" where
  "setupDataChannel channel s = s\<lparr>dataChannel := Some channel\<rparr>"

text \<open>\<^verbatim>\<open>this.socket.emit(...)\<close>: a \<^verbatim>\<open>TypeError\<close> when the socket is \<^verbatim>\<open>null\<close>.\<close>

definition emit :: "WebRTCManager \<Rightarrow> string \<Rightarrow> signal \<Rightarrow> error + effect" where
  "emit s ev p =
     (case socket s of
        None \<Rightarrow> Inl (TypeError ''Cannot read properties of null'')
      | Some _ \<Rightarrow> Inr (SocketEmit ev p))"

text \<open>\<^verbatim>\<open>this.onConnectionStateCallback?.(state)\<close>\<close>

definition notify :: "WebRTCManager \<Rightarrow> string \<Rightarrow> effect list" where
  "notify s st = (case onConnectionStateCallback s of None \<Rightarrow> [] | Some cb \<Rightarrow> [Invoke cb st])"

text \<open>
  The \<^verbatim>\<open>catch\<close> block shared by \<^verbatim>\<open>initiateConnection\<close>, \<^verbatim>\<open>handleOffer\<close> and
  \<^verbatim>\<open>handleAnswer\<close>: log, set \<^verbatim>\<open>connectionState = 'failed'\<close>, report, return.
\<close>

definition catch_failed :: "string \<Rightarrow> WebRTCManager \<Rightarrow> effect list \<Rightarrow> unit step" where
  "catch_failed msg s fx =
     (Returned (), s\<lparr>connectionState := ''failed''\<rparr>, fx @ Console Err msg # notify s ''failed'')"

definition initiateConnection :: "browser \<Rightarrow> identity \<Rightarrow> WebRTCManager \<Rightarrow> unit step" where
  "initiateConnection br remote s =
     (case peerConnection s of
        None \<Rightarrow>
          (Returned (), s,
           [Console Log ''Initiating connection to:'', Console Err ''No peer connection available''])
      | Some pc \<Rightarrow>
          if remoteAddress s = remote \<and>
             (connectionState s = ''connected'' \<or> connectionState s = ''connecting'')
          then (Returned (), s,
                [Console Log ''Initiating connection to:'',
                 Console Log ''Already connected/connecting to this peer''])
          else
            (let s1 = s\<lparr>remoteAddress := remote, isInitiator := True\<rparr>;
                 fx1 = [Console Log ''Initiating connection to:'',
                        PcCall (CreateDataChannel ''messages'')]
             in case createDataChannel br pc ''messages'' of
                  Inl e \<Rightarrow> catch_failed ''Error initiating connection:'' s1 fx1
                | Inr channel \<Rightarrow>
                    (let s2 = setupDataChannel channel s1;
                         fx2 = fx1 @ [PcCall CreateOffer]
                     in case createOffer br pc of
                          Inl e \<Rightarrow> catch_failed ''Error initiating connection:'' s2 fx2
                        | Inr offer \<Rightarrow>
                            (let fx3 = fx2 @ [PcCall (SetLocalDescription offer)]
                             in case setLocalDescription br pc offer of
                                  Inl e \<Rightarrow> catch_failed ''Error initiating connection:'' s2 fx3
                                | Inr pc1 \<Rightarrow>
                                    (let s3 = s2\<lparr>peerConnection := Some pc1\<rparr>;
                                         fx4 = fx3 @ [Console Log
                                                 ''Local description (offer) set successfully'']
                                     in case emit s3 ''webrtc-offer''
                                               (OfferTo offer remote (localAddress s3)) of
                                          Inl e \<Rightarrow>
                                            catch_failed ''Error initiating connection:'' s3 fx4
                                        | Inr sent \<Rightarrow>
                                            (Returned (),
                                             s3\<lparr>connectionState := ''connecting''\<rparr>,
                                             fx4 @ [sent]))))))"

text \<open>
  The loop of \<^verbatim>\<open>processPendingCandidates\<close>: every candidate of the queue is handed to
  \<^verbatim>\<open>addIceCandidate\<close>, in queue order; a candidate the browser rejects is logged and the
  loop goes on.
\<close>

fun addPending ::
    "browser \<Rightarrow> peer_connection \<Rightarrow> candidate list \<Rightarrow> peer_connection \<times> effect list" where
  "addPending br pc [] = (pc, [])"
| "addPending br pc (c # cs) =
     (case addIceCandidate br pc c of
        Inl e \<Rightarrow>
          (case addPending br pc cs of
             (pc', fx) \<Rightarrow>
               (pc', PcCall (AddIceCandidate c) #
                     Console Err ''Error adding pending ICE candidate:'' # fx))
      | Inr pc1 \<Rightarrow>
          (case addPending br pc1 cs of
             (pc', fx) \<Rightarrow>
               (pc', PcCall (AddIceCandidate c) #
                     Console Log ''Pending ICE candidate added successfully'' # fx)))"

text \<open>
  With no peer connection, \<^verbatim>\<open>this.peerConnection!.addIceCandidate\<close> is a
  \<^verbatim>\<open>TypeError\<close> inside the loop's \<^verbatim>\<open>try\<close>: logged once for each candidate.
\<close>

definition processPendingCandidates ::
    "browser \<Rightarrow> WebRTCManager \<Rightarrow> WebRTCManager \<times> effect list" where
  "processPendingCandidates br s =
     (case peerConnection s of
        None \<Rightarrow>
          (s\<lparr>pendingCandidates := []\<rparr>,
           Console Log ''Processing pending ICE candidates'' #
           map (\<lambda>c. Console Err ''Error adding pending ICE candidate:'') (pendingCandidates s))
      | Some pc \<Rightarrow>
          (case addPending br pc (pendingCandidates s) of
             (pc', fx) \<Rightarrow>
               (s\<lparr>peerConnection := Some pc', pendingCandidates := []\<rparr>,
                Console Log ''Processing pending ICE candidates'' # fx)))"

definition handleOffer ::
    "browser \<Rightarrow> description \<Rightarrow> identity \<Rightarrow> WebRTCManager \<Rightarrow> unit step" where
  "handleOffer br offer senderAddress s =
     (case peerConnection s of
        None \<Rightarrow>
          (Returned (), s,
           [Console Log ''Handling offer from:'', Console Err ''No peer connection available''])
      | Some pc \<Rightarrow>
          if signalingState pc \<noteq> ''stable'' \<and> signalingState pc \<noteq> ''have-local-offer''
          then (Returned (), s,
                [Console Log ''Handling offer from:'', Console Warn ''Ignoring offer in state:''])
          else
            (let s1 = s\<lparr>remoteAddress := senderAddress, isInitiator := False\<rparr>;
                 fx1 = [Console Log ''Handling offer from:'', PcCall (SetRemoteDescription offer)]
             in case setRemoteDescription br pc offer of
                  Inl e \<Rightarrow> catch_failed ''Error handling offer:'' s1 fx1
                | Inr pc1 \<Rightarrow>
                    (let s2 = s1\<lparr>peerConnection := Some pc1\<rparr>;
                         fx2 = fx1 @ [Console Log ''Remote description set successfully'',
                                      PcCall CreateAnswer]
                     in case createAnswer br pc1 of
                          Inl e \<Rightarrow> catch_failed ''Error handling offer:'' s2 fx2
                        | Inr answer \<Rightarrow>
                            (let fx3 = fx2 @ [PcCall (SetLocalDescription answer)]
                             in case setLocalDescription br pc1 answer of
                                  Inl e \<Rightarrow> catch_failed ''Error handling offer:'' s2 fx3
                                | Inr pc2 \<Rightarrow>
                                    (case processPendingCandidates br
                                            (s2\<lparr>peerConnection := Some pc2\<rparr>) of
                                       (s3, drained) \<Rightarrow>
                                         (let fx4 = fx3 @
                                                [Console Log
                                                   ''Local description (answer) set successfully'']
                                                @ drained
                                          in case emit s3 ''webrtc-answer''
                                                    (AnswerTo answer senderAddress
                                                       (localAddress s3)) of
                                               Inl e \<Rightarrow>
                                                 catch_failed ''Error handling offer:'' s3 fx4
                                             | Inr sent \<Rightarrow>
                                                 (Returned (),
                                                  s3\<lparr>connectionState := ''connecting''\<rparr>,
                                                  fx4 @ [sent])))))))"

definition handleAnswer :: "browser \<Rightarrow> description \<Rightarrow> WebRTCManager \<Rightarrow> unit step" where
  "handleAnswer br answer s =
     (case peerConnection s of
        None \<Rightarrow>
          (Returned (), s,
           [Console Log ''Handling answer'', Console Err ''No peer connection available''])
      | Some pc \<Rightarrow>
          if signalingState pc \<noteq> ''have-local-offer''
          then (Returned (), s,
                [Console Log ''Handling answer'', Console Warn ''Ignoring answer in state:''])
          else
            (let fx1 = [Console Log ''Handling answer'', PcCall (SetRemoteDescription answer)]
             in case setRemoteDescription br pc answer of
                  Inl e \<Rightarrow> catch_failed ''Error handling answer:'' s fx1
                | Inr pc1 \<Rightarrow>
                    (case processPendingCandidates br (s\<lparr>peerConnection := Some pc1\<rparr>) of
                       (s2, drained) \<Rightarrow>
                         (Returned (),
                          s2\<lparr>connectionState := ''connecting''\<rparr>,
                          fx1 @ [Console Log ''Remote description (answer) set successfully'']
                              @ drained))))"

definition handleIceCandidate :: "browser \<Rightarrow> candidate \<Rightarrow> WebRTCManager \<Rightarrow> unit step" where
  "handleIceCandidate br cand s =
     (case peerConnection s of
        None \<Rightarrow>
          (Returned (), s, [Console Err ''No peer connection available for ICE candidate''])
      | Some pc \<Rightarrow>
          if remoteDescription pc = None
          then (Returned (),
                s\<lparr>pendingCandidates := pendingCandidates s @ [cand]\<rparr>,
                [Console Log ''Queueing ICE candidate until remote description is set''])
          else
            (case addIceCandidate br pc cand of
               Inl e \<Rightarrow>
                 (Returned (), s,
                  [PcCall (AddIceCandidate cand), Console Err ''Error handling ICE candidate:''])
             | Inr pc1 \<Rightarrow>
                 (Returned (), s\<lparr>peerConnection := Some pc1\<rparr>,
                  [PcCall (AddIceCandidate cand),
                   Console Log ''ICE candidate added successfully''])))"

text \<open>
  \<^verbatim>\<open>JSON.stringify\<close> of a message of strings and a number returns; the effect carries
  the message itself. \<^verbatim>\<open>dataChannel.send\<close> is not in a \<^verbatim>\<open>try\<close> block: what it
  throws leaves \<^verbatim>\<open>sendMessage\<close>.
\<close>

definition sendMessage :: "browser \<Rightarrow> p2p_message \<Rightarrow> WebRTCManager \<Rightarrow> bool step" where
  "sendMessage br message s =
     (case dataChannel s of
        Some dc \<Rightarrow>
          if readyState dc = ''open''
          then (case channelSend br dc message of
                  Inl e \<Rightarrow> (Threw e, s, [])
                | Inr sent \<Rightarrow> (Returned True, s, [ChannelSend message]))
          else (Returned False, s, [])
      | None \<Rightarrow> (Returned False, s, []))"


text \<open>
  \<^verbatim>\<open>getTracks().forEach(track => this.peerConnection!.addTrack(...))\<close>: with no peer
  connection the first track raises a \<^verbatim>\<open>TypeError\<close>; a stream without tracks never
  touches the connection.
\<close>

fun addTracks ::
    "browser \<Rightarrow> peer_connection option \<Rightarrow> track list
       \<Rightarrow> error option \<times> peer_connection option \<times> effect list" where
  "addTracks br pco [] = (None, pco, [])"
| "addTracks br None (t # ts) = (Some (TypeError ''Cannot read properties of null''), None, [])"
| "addTracks br (Some pc) (t # ts) =
     (case addTrack br pc t of
        Inl e \<Rightarrow> (Some e, Some pc, [PcCall (AddTrack t)])
      | Inr pc1 \<Rightarrow>
          (case addTracks br (Some pc1) ts of
             (r, pco, fx) \<Rightarrow> (r, pco, PcCall (AddTrack t) # fx)))"

text \<open>The \<^verbatim>\<open>catch\<close> block of \<^verbatim>\<open>startCall\<close>: log and throw the error again.\<close>

definition rethrow :: "error \<Rightarrow> WebRTCManager \<Rightarrow> effect list \<Rightarrow> unit step" where
  "rethrow e s fx = (Threw e, s, fx @ [Console Err ''Failed to start call:''])"

definition startCall :: "browser \<Rightarrow> bool \<Rightarrow> WebRTCManager \<Rightarrow> unit step" where
  "startCall br video s =
     (case getUserMedia br video of
        Inl e \<Rightarrow> rethrow e s [GetUserMedia video]
      | Inr stream \<Rightarrow>
          (let s1 = s\<lparr>localStream := Some stream\<rparr>
           in case addTracks br (peerConnection s1) (getTracks stream) of
                (Some e, pco, fx) \<Rightarrow>
                  rethrow e (s1\<lparr>peerConnection := pco\<rparr>) (GetUserMedia video # fx)
              | (None, None, fx) \<Rightarrow>
                  rethrow (TypeError ''Cannot read properties of null'') s1
                    (GetUserMedia video # fx)
              | (None, Some pc, fx) \<Rightarrow>
                  (let s2 = s1\<lparr>peerConnection := Some pc\<rparr>;
                       fx2 = GetUserMedia video # fx @ [PcCall CreateOffer]
                   in case createOffer br pc of
                        Inl e \<Rightarrow> rethrow e s2 fx2
                      | Inr offer \<Rightarrow>
                          (let fx3 = fx2 @ [PcCall (SetLocalDescription offer)]
                           in case setLocalDescription br pc offer of
                                Inl e \<Rightarrow> rethrow e s2 fx3
                              | Inr pc1 \<Rightarrow>
                                  (let s3 = s2\<lparr>peerConnection := Some pc1\<rparr>
                                   in case emit s3 ''webrtc-call-offer''
                                             (CallOfferTo offer (remoteAddress s3)
                                                (localAddress s3) video) of
                                        Inl e \<Rightarrow> rethrow e s3 fx3
                                      | Inr sent \<Rightarrow> (Returned (), s3, fx3 @ [sent]))))))"

definition onMessage :: "callback \<Rightarrow> WebRTCManager \<Rightarrow> WebRTCManager" where
  "onMessage cb s = s\<lparr>onMessageCallback := Some cb\<rparr>"

definition onConnectionState :: "callback \<Rightarrow> WebRTCManager \<Rightarrow> WebRTCManager" where
  "onConnectionState cb s = s\<lparr>onConnectionStateCallback := Some cb\<rparr>"

definition getConnectionState :: "WebRTCManager \<Rightarrow> string" where
  "getConnectionState s =
     (case dataChannel s of
        Some dc \<Rightarrow> if readyState dc = ''open'' then ''connected'' else connectionState s
      | None \<Rightarrow> connectionState s)"

definition close :: "WebRTCManager \<Rightarrow> unit step" where
  "close s =
     (Returned (),
      s\<lparr>dataChannel := None, localStream := None, peerConnection := None,
        connectionState := ''closed'', pendingCandidates := []\<rparr>,
      [Console Log ''Closing WebRTC connection'']
      @ (case dataChannel s of None \<Rightarrow> [] | Some dc \<Rightarrow> [ChannelClose])
      @ (case localStream s of None \<Rightarrow> [] | Some stream \<Rightarrow> map TrackStop (getTracks stream))
      @ (case peerConnection s of None \<Rightarrow> [] | Some pc \<Rightarrow> [PcCall ClosePc]))"

definition reset :: "WebRTCManager \<Rightarrow> unit step" where
  "reset s =
     (Returned (),
      (setupPeerConnection (state_of (close s)))\<lparr>connectionState := ''new''\<rparr>,
      Console Log ''Resetting WebRTC connection'' # effects_of (close s))"

text \<open>
  What the browser does on its own: \<^verbatim>\<open>ondatachannel\<close> hands the manager a channel
  (\<^verbatim>\<open>setupDataChannel\<close>), the channel the manager holds changes its
  \<^verbatim>\<open>readyState\<close>, and the peer connection it holds changes as negotiation goes on. The
  handlers for these events (\<^verbatim>\<open>onopen\<close>, \<^verbatim>\<open>onclose\<close>, \<^verbatim>\<open>onmessage\<close>,
  \<^verbatim>\<open>onicecandidate\<close>, \<^verbatim>\<open>onconnectionstatechange\<close>) call back and emit, and assign
  no field of the manager.
\<close>

definition channel_event :: "string \<Rightarrow> WebRTCManager \<Rightarrow> WebRTCManager" where
  "channel_event r s =
     (case dataChannel s of
        None \<Rightarrow> s
      | Some dc \<Rightarrow> s\<lparr>dataChannel := Some (dc\<lparr>readyState := r\<rparr>)\<rparr>)"

definition pc_event :: "peer_connection \<Rightarrow> WebRTCManager \<Rightarrow> WebRTCManager" where
  "pc_event pc' s =
     (case peerConnection s of
        None \<Rightarrow> s
      | Some pc \<Rightarrow> s\<lparr>peerConnection := Some pc'\<rparr>)"

text \<open>
  The managers a program can hold: built by the constructor, then changed by the public
  methods, with any arguments and any browser, and by the browser's events.
\<close>

inductive reachable :: "WebRTCManager \<Rightarrow> bool" where
  r_new: "reachable (new_WebRTCManager sock addr)"
| r_initiateConnection: "reachable s \<Longrightarrow> reachable (state_of (initiateConnection br remote s))"
| r_handleOffer: "reachable s \<Longrightarrow> reachable (state_of (handleOffer br offer senderAddress s))"
| r_handleAnswer: "reachable s \<Longrightarrow> reachable (state_of (handleAnswer br answer s))"
| r_handleIceCandidate: "reachable s \<Longrightarrow> reachable (state_of (handleIceCandidate br cand s))"
| r_sendMessage: "reachable s \<Longrightarrow> reachable (state_of (sendMessage br message s))"
| r_startCall: "reachable s \<Longrightarrow> reachable (state_of (startCall br video s))"
| r_onMessage: "reachable s \<Longrightarrow> reachable (onMessage cb s)"
| r_onConnectionState: "reachable s \<Longrightarrow> reachable (onConnectionState cb s)"
| r_close: "reachable s \<Longrightarrow> reachable (state_of (close s))"
| r_reset: "reachable s \<Longrightarrow> reachable (state_of (reset s))"
| r_datachannel: "reachable s \<Longrightarrow> reachable (setupDataChannel channel s)"
| r_channel_event: "reachable s \<Longrightarrow> reachable (channel_event r s)"
| r_pc_event: "reachable s \<Longrightarrow> reachable (pc_event pc' s)"

subsection \<open>Reading a list of effects\<close>

fun is_console :: "effect \<Rightarrow> bool" where
  "is_console (Console _ _) = True"
| "is_console _ = False"

text \<open>The candidates handed to \<^verbatim>\<open>addIceCandidate\<close>, in the order of the calls.\<close>

fun applied_candidates :: "effect list \<Rightarrow> candidate list" where
  "applied_candidates [] = []"
| "applied_candidates (PcCall (AddIceCandidate c) # fx) = c # applied_candidates fx"
| "applied_candidates (_ # fx) = applied_candidates fx"

text \<open>The events handed to \<^verbatim>\<open>socket.emit\<close>, in order.\<close>

fun emitted :: "effect list \<Rightarrow> (string \<times> signal) list" where
  "emitted [] = []"
| "emitted (SocketEmit ev p # fx) = (ev, p) # emitted fx"
| "emitted (_ # fx) = emitted fx"

text \<open>Whether the manager holds a data channel whose \<^verbatim>\<open>readyState\<close> is \<^verbatim>\<open>'open'\<close>.\<close>

definition channel_open :: "WebRTCManager \<Rightarrow> bool" where
  "channel_open s = (case dataChannel s of None \<Rightarrow> False | Some dc \<Rightarrow> readyState dc = ''open'')"

text \<open>Whether an effect is a call of \<^verbatim>\<open>setRemoteDescription\<close>.\<close>

fun is_set_remote :: "effect \<Rightarrow> bool" where
  "is_set_remote (PcCall (SetRemoteDescription _)) = True"
| "is_set_remote _ = False"

text \<open>The effects that come before the first call of \<^verbatim>\<open>setRemoteDescription\<close>.\<close>

definition before_remote :: "effect list \<Rightarrow> effect list" where
  "before_remote fx = takeWhile (\<lambda>e. \<not> is_set_remote e) fx"

section \<open>Concrete relays, managers and browsers\<close>

definition relay_example :: relay where
  "relay_example = empty_relay\<lparr>connectedUsers := [(''e0'', ''A''), (''e2'', ''C'')]\<rparr>"

text \<open>\<open>A\<close> joins on socket \<open>s\<close>; \<open>B\<close> joins on socket \<open>e\<close> and disconnects.\<close>

definition relay_after_leave :: relay where
  "relay_after_leave =
     fst (on_disconnect ''e'' (fst (on_join ''e'' ''B'' (fst (on_join ''s'' ''A'' empty_relay)))))"

text \<open>
  A browser in which every call succeeds and the signaling state moves as the WebRTC
  standard says: a local offer leads to \<^verbatim>\<open>have-local-offer\<close>, a remote offer to
  \<^verbatim>\<open>have-remote-offer\<close>, an answer back to \<^verbatim>\<open>stable\<close>.
\<close>

definition browser_ok :: browser where
  "browser_ok =
     \<lparr>createDataChannel = (\<lambda>pc l. Inr \<lparr>label = l, readyState = ''connecting''\<rparr>),
      createOffer = (\<lambda>pc. Inr (Description ''offer'' ''local-sdp'')),
      createAnswer = (\<lambda>pc. Inr (Description ''answer'' ''local-sdp'')),
      setLocalDescription = (\<lambda>pc d. Inr (pc\<lparr>signalingState :=
         (if sdp_type d = ''offer'' then ''have-local-offer'' else ''stable'')\<rparr>)),
      setRemoteDescription = (\<lambda>pc d. Inr (pc\<lparr>signalingState :=
         (if sdp_type d = ''offer'' then ''have-remote-offer'' else ''stable''),
         remoteDescription := Some d\<rparr>)),
      addIceCandidate = (\<lambda>pc c. Inr (pc\<lparr>internal := Suc (internal pc)\<rparr>)),
      addTrack = (\<lambda>pc t. Inr (pc\<lparr>internal := Suc (internal pc)\<rparr>)),
      getUserMedia = (\<lambda>video. Inr (MediaStream (if video then [''audio'', ''video'']
                                                  else [''audio'']))),
      channelSend = (\<lambda>dc message. Inr ())\<rparr>"

text \<open>The same browser, but \<^verbatim>\<open>createAnswer\<close> rejects.\<close>

definition browser_no_answer :: browser where
  "browser_no_answer = browser_ok\<lparr>createAnswer := (\<lambda>pc. Inl (DOMException ''OperationError''))\<rparr>"

text \<open>The same browser, but the user denies camera and microphone.\<close>

definition browser_no_media :: browser where
  "browser_no_media =
     browser_ok\<lparr>getUserMedia := (\<lambda>video. Inl (DOMException ''NotAllowedError''))\<rparr>"

definition manager_new :: WebRTCManager where
  "manager_new = new_WebRTCManager (Some ''sock'') ''A''"

text \<open>\<open>A\<close> has sent its offer to \<open>B\<close> and waits for the answer.\<close>

definition manager_offering :: WebRTCManager where
  "manager_offering = state_of (initiateConnection browser_ok ''B'' manager_new)"

text \<open>Two candidates of \<open>B\<close> arrive before its answer.\<close>

definition manager_queued :: WebRTCManager where
  "manager_queued =
     state_of (handleIceCandidate browser_ok ''c2''
       (state_of (handleIceCandidate browser_ok ''c1'' manager_offering)))"

text \<open>The data channel of the offering manager has opened.\<close>

definition manager_open :: WebRTCManager where
  "manager_open = channel_event ''open'' manager_offering"

text \<open>A manager in the middle of answering a remote offer.\<close>

definition manager_answering :: WebRTCManager where
  "manager_answering =
     manager_new\<lparr>peerConnection := Some \<lparr>signalingState = ''have-remote-offer'',
        remoteDescription = Some (Description ''offer'' ''remote-sdp''), internal = 0\<rparr>\<rparr>"

text \<open>Two candidates of \<open>B\<close> reach a fresh manager before the offer of \<open>B\<close> does.\<close>

definition manager_early :: WebRTCManager where
  "manager_early =
     state_of (handleIceCandidate browser_ok ''c2''
       (state_of (handleIceCandidate browser_ok ''c1'' manager_new)))"

text \<open>The same browser, but the channel cannot queue another message.\<close>

definition browser_send_fails :: browser where
  "browser_send_fails =
     browser_ok\<lparr>channelSend := (\<lambda>dc message. Inl (DOMException ''OperationError''))\<rparr>"

text \<open>The same browser, but it rejects a session description it cannot parse.\<close>

definition browser_strict :: browser where
  "browser_strict =
     browser_ok\<lparr>setRemoteDescription := (\<lambda>pc d.
        if sdp d = ''malformed'' then Inl (DOMException ''InvalidAccessError'')
        else setRemoteDescription browser_ok pc d)\<rparr>"

text \<open>
  \<open>A\<close> offered, \<open>B\<close> answered and the data channel opened: \<open>A\<close> is connected to \<open>B\<close>.
\<close>

definition manager_connected :: WebRTCManager where
  "manager_connected =
     channel_event ''open''
       (state_of (handleAnswer browser_strict (Description ''answer'' ''remote-sdp'')
          manager_offering))"

text \<open>
  Then a second offer of \<open>B\<close> arrives that the browser cannot parse: the negotiation step
  fails, the open channel stays.
\<close>

definition manager_stale :: WebRTCManager where
  "manager_stale =
     state_of (handleOffer browser_strict (Description ''offer'' ''malformed'') ''B''
       manager_connected)"

section \<open>Properties of the relay\<close>

lemma evict_loop_fst:
  "fst (evict_loop es sid uid m) =
     filter (\<lambda>(s, u). \<not> ((s, uid) \<in> set es \<and> s \<noteq> sid)) m"
proof (induction es arbitrary: m)
  case Nil
  then show ?case by simp
next
  case (Cons e es)
  obtain s0 u0 where e: "e = (s0, u0)" by (cases e)
  show ?case
    unfolding e using Cons.IH [of m] Cons.IH [of "Map_delete s0 m"]
    by (auto simp: Map_delete_def split: prod.splits intro!: filter_cong)
qed

lemma evict_stale_filter:
  assumes "wf_directory m"
  shows "evict_stale sid uid m = filter (\<lambda>(s, u). \<not> (u = uid \<and> s \<noteq> sid)) m"
proof -
  have "\<And>s u. (s, u) \<in> set m \<Longrightarrow> ((s, uid) \<in> set m \<and> s \<noteq> sid) = (u = uid \<and> s \<noteq> sid)"
    using assms unfolding wf_directory_def by (auto dest: eq_key_imp_eq_value)
  then show ?thesis
    unfolding evict_stale_def evict_loop_fst by (auto intro!: filter_cong)
qed

lemma wf_filter: "wf_directory m \<Longrightarrow> wf_directory (filter P m)"
  unfolding wf_directory_def by (simp add: distinct_map_filter)

lemma map_fst_Map_set_has:
  "Map_has k m \<Longrightarrow> map fst (Map_set k v m) = map fst m"
  unfolding Map_set_def by (simp add: comp_def case_prod_unfold)

lemma wf_Map_set: "wf_directory m \<Longrightarrow> wf_directory (Map_set k v m)"
proof (cases "Map_has k m")
  case True
  assume "wf_directory m"
  then show ?thesis using True by (simp add: wf_directory_def map_fst_Map_set_has)
next
  case False
  assume "wf_directory m"
  then show ?thesis using False by (simp add: wf_directory_def Map_set_def Map_has_def)
qed

lemma wf_evict_stale: "wf_directory m \<Longrightarrow> wf_directory (evict_stale sid uid m)"
  by (simp add: evict_stale_filter wf_filter)

lemma filter_unique_key:
  "distinct (map fst xs) \<Longrightarrow> (k, v) \<in> set xs \<Longrightarrow> P (k, v) \<Longrightarrow>
   (\<And>x. x \<in> set xs \<Longrightarrow> P x \<Longrightarrow> fst x = k) \<Longrightarrow> filter P xs = [(k, v)]"
proof (induction xs)
  case Nil
  then show ?case by simp
next
  case (Cons x xs)
  show ?case
  proof (cases "x = (k, v)")
    case True
    have "filter P xs = []"
    proof -
      have "\<And>y. y \<in> set xs \<Longrightarrow> \<not> P y"
      proof
        fix y assume y: "y \<in> set xs" and "P y"
        then have "fst y = k" using Cons.prems(4) by simp
        then have "k \<in> set (map fst xs)" using y by force
        then show False using Cons.prems(1) True by simp
      qed
      then show ?thesis by (simp add: filter_empty_conv)
    qed
    then show ?thesis using True Cons.prems(3) by simp
  next
    case False
    then have in_xs: "(k, v) \<in> set xs" using Cons.prems(2) by simp
    have "\<not> P x"
    proof
      assume "P x"
      then have "fst x = k" using Cons.prems(4) by simp
      moreover have "k \<in> set (map fst xs)" using in_xs by force
      ultimately show False using Cons.prems(1) by simp
    qed
    moreover have "filter P xs = [(k, v)]"
      using Cons.IH Cons.prems in_xs by simp
    ultimately show ?thesis by simp
  qed
qed

lemma entries_of_evict_other:
  "wf_directory m \<Longrightarrow> (s, u) \<in> set (evict_stale sid uid m) \<Longrightarrow> u = uid \<Longrightarrow> s = sid"
  by (auto simp: evict_stale_filter)

lemma entries_of_join_dir:
  assumes "wf_directory m"
  shows "entries_of uid (Map_set sid uid (evict_stale sid uid m)) = [(sid, uid)]"
proof -
  let ?f = "evict_stale sid uid m"
  have wf: "wf_directory ?f" using assms by (rule wf_evict_stale)
  have other: "\<And>s u. (s, u) \<in> set ?f \<Longrightarrow> u = uid \<Longrightarrow> s = sid"
    using assms by (rule entries_of_evict_other)
  show ?thesis
  proof (cases "Map_has sid ?f")
    case True
    have "distinct (map fst (Map_set sid uid ?f))"
      using wf_Map_set [OF wf] by (simp add: wf_directory_def)
    moreover have "(sid, uid) \<in> set (Map_set sid uid ?f)"
      using True by (force simp: Map_set_def Map_has_def)
    moreover have "\<And>x. x \<in> set (Map_set sid uid ?f) \<Longrightarrow>
        (case x of (socketId, userId) \<Rightarrow> userId = uid) \<Longrightarrow> fst x = sid"
      using True other by (auto simp: Map_set_def split: if_splits)
    ultimately show ?thesis
      unfolding entries_of_def by (intro filter_unique_key) auto
  next
    case False
    have "\<And>x. x \<in> set ?f \<Longrightarrow> \<not> (case x of (socketId, userId) \<Rightarrow> userId = uid)"
    proof
      fix x assume x: "x \<in> set ?f" and "case x of (socketId, userId) \<Rightarrow> userId = uid"
      then have "x = (sid, uid)" using other [of "fst x" "snd x"] by (cases x) auto
      then have "sid \<in> set (map fst ?f)" using x by force
      then show False using False by (simp add: Map_has_def)
    qed
    then have "filter (\<lambda>(socketId, userId). userId = uid) ?f = []"
      by (simp add: filter_empty_conv)
    then show ?thesis using False by (simp add: entries_of_def Map_set_def)
  qed
qed

lemma resolve_entries_of:
  "resolve m uid = (case entries_of uid m of [] \<Rightarrow> None | x # _ \<Rightarrow> Some (fst x))"
  unfolding resolve_def entries_of_def by (induction m) auto

lemma connectedUsers_on_join:
  "connectedUsers (fst (on_join sid uid st)) = Map_set sid uid (evict_stale sid uid (connectedUsers st))"
  by (simp add: on_join_def evict_stale_def Let_def split: prod.splits)

lemma wf_on_join:
  "wf_directory (connectedUsers st) \<Longrightarrow> wf_directory (connectedUsers (fst (on_join sid uid st)))"
  by (simp add: connectedUsers_on_join wf_Map_set wf_evict_stale)

lemma entries_of_evict_stale_other:
  assumes "wf_directory m" "entries_of uid m = [(e1, uid)]" "e1 \<noteq> e2"
  shows "entries_of uid (evict_stale e2 uid m) = []"
proof -
  have "\<And>s u. (s, u) \<in> set m \<Longrightarrow> u = uid \<Longrightarrow> s = e1"
  proof -
    fix s u assume "(s, u) \<in> set m" "u = uid"
    then have "(s, u) \<in> set (entries_of uid m)" by (simp add: entries_of_def)
    then show "s = e1" using assms(2) by simp
  qed
  then show ?thesis
    using assms(1,3) by (auto simp: entries_of_def evict_stale_filter filter_empty_conv)
qed

text \<open>
  Claim C1. After \<open>A\<close> joins on socket \<open>e1\<close> and then on a different socket \<open>e2\<close>, the
  directory resolves \<open>A\<close> to \<open>e2\<close> and holds exactly one entry for \<open>A\<close>. The handler
  removes the entry under \<open>e1\<close> before it writes the one under \<open>e2\<close>: after the first
  join \<open>A\<close> has the one entry \<open>e1\<close>, between the eviction loop and the insertion it has
  none, and the final directory is that intermediate one with \<open>e2\<close> set.
\<close>

theorem register_twice:
  assumes "wf_directory (connectedUsers st)" and "e1 \<noteq> e2"
  shows "resolve (connectedUsers (fst (on_join e2 A (fst (on_join e1 A st))))) A = Some e2
       \<and> entries_of A (connectedUsers (fst (on_join e2 A (fst (on_join e1 A st))))) = [(e2, A)]
       \<and> entries_of A (connectedUsers (fst (on_join e1 A st))) = [(e1, A)]
       \<and> entries_of A (evict_stale e2 A (connectedUsers (fst (on_join e1 A st)))) = []
       \<and> connectedUsers (fst (on_join e2 A (fst (on_join e1 A st))))
           = Map_set e2 A (evict_stale e2 A (connectedUsers (fst (on_join e1 A st))))"
proof -
  let ?d1 = "connectedUsers (fst (on_join e1 A st))"
  let ?d2 = "connectedUsers (fst (on_join e2 A (fst (on_join e1 A st))))"
  have wf1: "wf_directory ?d1" using assms(1) by (rule wf_on_join)
  have one1: "entries_of A ?d1 = [(e1, A)]"
    using assms(1) by (simp add: connectedUsers_on_join entries_of_join_dir)
  have d2: "?d2 = Map_set e2 A (evict_stale e2 A ?d1)"
    by (rule connectedUsers_on_join)
  have one2: "entries_of A ?d2 = [(e2, A)]"
    unfolding d2 using wf1 by (rule entries_of_join_dir)
  have mid: "entries_of A (evict_stale e2 A ?d1) = []"
    using wf1 one1 assms(2) by (rule entries_of_evict_stale_other)
  have res: "resolve ?d2 A = Some e2"
    by (simp add: resolve_entries_of one2)
  show ?thesis using res one2 one1 mid d2 by blast
qed

theorem register_twice_witness:
  "wf_directory (connectedUsers relay_example) \<and> ''e1'' \<noteq> ''e2''
   \<and> resolve (connectedUsers (fst (on_join ''e2'' ''A'' (fst (on_join ''e1'' ''A'' relay_example))))) ''A''
        = Some ''e2''
   \<and> connectedUsers (fst (on_join ''e2'' ''A'' (fst (on_join ''e1'' ''A'' relay_example))))
        = [(''e2'', ''A'')]"
proof -
  have wf: "wf_directory (connectedUsers relay_example)"
    by (simp add: wf_directory_def relay_example_def)
  have ne: "''e1'' \<noteq> ''e2''" by simp
  have "connectedUsers (fst (on_join ''e2'' ''A'' (fst (on_join ''e1'' ''A'' relay_example))))
        = [(''e2'', ''A'')]"
    by (simp add: on_join_def relay_example_def empty_relay_def Map_set_def Map_has_def
        Map_delete_def Let_def)
  then show ?thesis using register_twice [OF wf ne, of "''A''"] wf ne by blast
qed

lemma resolve_absent:
  "target \<notin> set (Map_values m) \<Longrightarrow> resolve m target = None"
  unfolding resolve_def Map_values_def by (force simp: find_None_iff)

text \<open>
  Claim C3, as the relay implements it. When the target identity has no directory entry,
  every forwarding handler (\<^verbatim>\<open>sendMessage\<close>, \<^verbatim>\<open>webrtc-offer\<close>, \<^verbatim>\<open>webrtc-answer\<close>,
  \<^verbatim>\<open>webrtc-ice-candidate\<close>, \<^verbatim>\<open>webrtc-call-offer\<close>) leaves the relay unchanged and emits
  nothing to any socket, the sender's included: the miss is written to the relay's console
  at most.
\<close>

theorem forward_offline_silent:
  assumes "target \<notin> set (Map_values (connectedUsers st))"
  shows "fst (on_sendMessage sid (MessageData sender_id target body) st) = st
       \<and> emissions (snd (on_sendMessage sid (MessageData sender_id target body) st)) = []
       \<and> fst (on_webrtc_offer sid offer target sender_id st) = st
       \<and> emissions (snd (on_webrtc_offer sid offer target sender_id st)) = []
       \<and> fst (on_webrtc_answer sid answer target sender_id st) = st
       \<and> emissions (snd (on_webrtc_answer sid answer target sender_id st)) = []
       \<and> fst (on_webrtc_ice_candidate sid cand target st) = st
       \<and> emissions (snd (on_webrtc_ice_candidate sid cand target st)) = []
       \<and> fst (on_webrtc_call_offer sid offer target sender_id hasVideo st) = st
       \<and> emissions (snd (on_webrtc_call_offer sid offer target sender_id hasVideo st)) = []"
proof -
  have none: "resolve (connectedUsers st) target = None"
    using assms by (rule resolve_absent)
  show ?thesis
    by (simp add: none on_sendMessage_def on_webrtc_offer_def on_webrtc_answer_def
        on_webrtc_ice_candidate_def on_webrtc_call_offer_def emissions_def)
qed

lemma relay_after_leave_users:
  "connectedUsers relay_after_leave = [(''s'', ''A'')]"
  by (simp add: relay_after_leave_def on_disconnect_def on_join_def empty_relay_def
      Map_set_def Map_has_def Map_delete_def Let_def)

theorem forward_offline_silent_witness:
  "''B'' \<notin> set (Map_values (connectedUsers relay_after_leave))
   \<and> fst (on_webrtc_offer ''s'' (Description ''offer'' ''v=0'') ''B'' ''A'' relay_after_leave)
       = relay_after_leave
   \<and> emissions (snd (on_webrtc_offer ''s'' (Description ''offer'' ''v=0'') ''B'' ''A''
       relay_after_leave)) = []"
proof -
  have absent: "''B'' \<notin> set (Map_values (connectedUsers relay_after_leave))"
    by (simp add: relay_after_leave_users Map_values_def)
  show ?thesis
    using forward_offline_silent [OF absent, of "''s''" "''A''" "''hello''"
        "Description ''offer'' ''v=0''"] absent
    by blast
qed

text \<open>
  The claim as the specification words it asks for a "target offline" report to the
  sender. After \<open>B\<close> joined and left, a message from socket \<open>s\<close> to \<open>B\<close> produces no
  output that reaches \<open>s\<close>.
\<close>

theorem target_offline_not_reported:
  "resolve (connectedUsers relay_after_leave) ''B'' = None
   \<and> \<not> reported_to ''s''
        (snd (on_sendMessage ''s'' (MessageData ''A'' ''B'' ''hello'') relay_after_leave))"
  by (simp add: relay_after_leave_users resolve_def on_sendMessage_def reported_to_def)


section \<open>Properties of the client session\<close>

subsection \<open>The concrete managers, unfolded\<close>

lemma manager_new_simps:
  "peerConnection manager_new =
     Some \<lparr>signalingState = ''stable'', remoteDescription = None, internal = 0\<rparr>"
  "dataChannel manager_new = None"
  "connectionState manager_new = ''new''"
  "pendingCandidates manager_new = []"
  "socket manager_new = Some ''sock''"
  "remoteAddress manager_new = []"
  "localAddress manager_new = ''A''"
  "localStream manager_new = None"
  by (simp_all add: manager_new_def new_WebRTCManager_def setupPeerConnection_def)

lemma manager_offering_eq:
  "manager_offering =
     manager_new\<lparr>remoteAddress := ''B'', isInitiator := True,
        dataChannel := Some \<lparr>label = ''messages'', readyState = ''connecting''\<rparr>,
        peerConnection := Some \<lparr>signalingState = ''have-local-offer'',
           remoteDescription = None, internal = 0\<rparr>,
        connectionState := ''connecting''\<rparr>"
  by (simp add: manager_offering_def initiateConnection_def manager_new_simps browser_ok_def
      state_of_def emit_def setupDataChannel_def Let_def)

lemma manager_queued_eq:
  "manager_queued = manager_offering\<lparr>pendingCandidates := [''c1'', ''c2'']\<rparr>"
  by (simp add: manager_queued_def handleIceCandidate_def manager_offering_eq manager_new_simps
      state_of_def)

lemma manager_early_eq:
  "manager_early = manager_new\<lparr>pendingCandidates := [''c1'', ''c2'']\<rparr>"
  by (simp add: manager_early_def handleIceCandidate_def manager_new_simps state_of_def)

lemma manager_open_channel:
  "dataChannel manager_open = Some \<lparr>label = ''messages'', readyState = ''open''\<rparr>"
  by (simp add: manager_open_def manager_offering_eq channel_event_def)

subsection \<open>Draining the queue of candidates\<close>

lemma applied_addPending:
  "applied_candidates (snd (addPending br pc cs)) = cs"
proof (induction cs arbitrary: pc)
  case Nil
  show ?case by simp
next
  case (Cons c cs)
  show ?case
  proof (cases "addIceCandidate br pc c")
    case (Inl e)
    obtain pc' fx where r: "addPending br pc cs = (pc', fx)"
      by (cases "addPending br pc cs")
    have "applied_candidates fx = cs" using Cons.IH [of pc] r by simp
    then show ?thesis using Inl r by simp
  next
    case (Inr pc1)
    obtain pc' fx where r: "addPending br pc1 cs = (pc', fx)"
      by (cases "addPending br pc1 cs")
    have "applied_candidates fx = cs" using Cons.IH [of pc1] r by simp
    then show ?thesis using Inr r by simp
  qed
qed

lemma applied_append:
  "applied_candidates (fx @ gx) = applied_candidates fx @ applied_candidates gx"
  by (induction fx rule: applied_candidates.induct) simp_all

lemma processPending_Some:
  "peerConnection s = Some pc \<Longrightarrow>
   applied_candidates (snd (processPendingCandidates br s)) = pendingCandidates s
   \<and> pendingCandidates (fst (processPendingCandidates br s)) = []
   \<and> connectionState (fst (processPendingCandidates br s)) = connectionState s"
proof -
  assume pc: "peerConnection s = Some pc"
  obtain pc' fx where r: "addPending br pc (pendingCandidates s) = (pc', fx)"
    by (cases "addPending br pc (pendingCandidates s)")
  have "applied_candidates fx = pendingCandidates s"
    using applied_addPending [of br pc "pendingCandidates s"] r by simp
  then show ?thesis using pc r by (simp add: processPendingCandidates_def)
qed

lemma processPending_fields:
  "pendingCandidates (fst (processPendingCandidates br s)) = []"
  "connectionState (fst (processPendingCandidates br s)) = connectionState s"
  "dataChannel (fst (processPendingCandidates br s)) = dataChannel s"
  "socket (fst (processPendingCandidates br s)) = socket s"
  by (simp_all add: processPendingCandidates_def split: option.splits prod.splits)

lemma catch_failed_parts:
  "state_of (catch_failed msg s fx) = s\<lparr>connectionState := ''failed''\<rparr>"
  "outcome_of (catch_failed msg s fx) = Returned ()"
  "effects_of (catch_failed msg s fx) = fx @ Console Err msg # notify s ''failed''"
  by (simp_all add: catch_failed_def state_of_def outcome_of_def effects_of_def)

lemma applied_notify: "applied_candidates (notify s st) = []"
  by (simp add: notify_def split: option.splits)

lemma handleAnswer_drains:
  assumes "peerConnection s = Some pc" "signalingState pc = ''have-local-offer''"
    "setRemoteDescription br pc answer = Inr pc1"
  shows "applied_candidates (effects_of (handleAnswer br answer s)) = pendingCandidates s"
    and "applied_candidates (before_remote (effects_of (handleAnswer br answer s))) = []"
    and "pendingCandidates (state_of (handleAnswer br answer s)) = []"
proof -
  let ?s1 = "s\<lparr>peerConnection := Some pc1\<rparr>"
  obtain s2 drained where p: "processPendingCandidates br ?s1 = (s2, drained)"
    by (cases "processPendingCandidates br ?s1")
  have d: "applied_candidates drained = pendingCandidates s" "pendingCandidates s2 = []"
    using processPending_Some [of ?s1 pc1 br] p by simp_all
  have h: "handleAnswer br answer s =
      (Returned (), s2\<lparr>connectionState := ''connecting''\<rparr>,
       [Console Log ''Handling answer'', PcCall (SetRemoteDescription answer)]
       @ [Console Log ''Remote description (answer) set successfully''] @ drained)"
    using assms p by (simp add: handleAnswer_def)
  show "applied_candidates (effects_of (handleAnswer br answer s)) = pendingCandidates s"
    by (simp add: h effects_of_def d)
  show "applied_candidates (before_remote (effects_of (handleAnswer br answer s))) = []"
    by (simp add: h effects_of_def before_remote_def)
  show "pendingCandidates (state_of (handleAnswer br answer s)) = []"
    by (simp add: h state_of_def d)
qed

lemma handleOffer_drains:
  assumes "peerConnection s = Some pc"
    "signalingState pc = ''stable'' \<or> signalingState pc = ''have-local-offer''"
    "setRemoteDescription br pc offer = Inr pc1"
    "createAnswer br pc1 = Inr answer" "setLocalDescription br pc1 answer = Inr pc2"
  shows "applied_candidates (effects_of (handleOffer br offer senderAddress s))
           = pendingCandidates s"
    and "applied_candidates (before_remote (effects_of (handleOffer br offer senderAddress s)))
           = []"
    and "pendingCandidates (state_of (handleOffer br offer senderAddress s)) = []"
proof -
  let ?s2 = "s\<lparr>remoteAddress := senderAddress, isInitiator := False,
               peerConnection := Some pc1, peerConnection := Some pc2\<rparr>"
  let ?fx3 = "[Console Log ''Handling offer from:'', PcCall (SetRemoteDescription offer)]
      @ [Console Log ''Remote description set successfully'', PcCall CreateAnswer]
      @ [PcCall (SetLocalDescription answer)]"
  obtain s3 drained where p: "processPendingCandidates br ?s2 = (s3, drained)"
    by (cases "processPendingCandidates br ?s2")
  have d: "applied_candidates drained = pendingCandidates s" "pendingCandidates s3 = []"
    using processPending_Some [of ?s2 pc2 br] p by simp_all
  let ?fx4 = "?fx3 @ [Console Log ''Local description (answer) set successfully''] @ drained"
  have h: "handleOffer br offer senderAddress s =
      (case emit s3 ''webrtc-answer'' (AnswerTo answer senderAddress (localAddress s3)) of
         Inl e \<Rightarrow> catch_failed ''Error handling offer:'' s3 ?fx4
       | Inr sent \<Rightarrow> (Returned (), s3\<lparr>connectionState := ''connecting''\<rparr>, ?fx4 @ [sent]))"
    using assms p by (auto simp: handleOffer_def Let_def split: sum.splits)
  show "applied_candidates (effects_of (handleOffer br offer senderAddress s))
           = pendingCandidates s"
    by (simp add: h effects_of_def d emit_def catch_failed_def applied_append applied_notify
        split: option.splits)
  show "applied_candidates (before_remote (effects_of (handleOffer br offer senderAddress s)))
           = []"
    by (simp add: h effects_of_def before_remote_def emit_def catch_failed_def
        split: option.splits)
  show "pendingCandidates (state_of (handleOffer br offer senderAddress s)) = []"
    by (simp add: h state_of_def d emit_def catch_failed_def split: option.splits)
qed

lemma handleOffer_answer_fails:
  assumes "peerConnection s = Some pc"
    "signalingState pc = ''stable'' \<or> signalingState pc = ''have-local-offer''"
    "setRemoteDescription br pc offer = Inr pc1"
    "createAnswer br pc1 = Inl e
     \<or> (createAnswer br pc1 = Inr answer \<and> setLocalDescription br pc1 answer = Inl e)"
  shows "applied_candidates (effects_of (handleOffer br offer senderAddress s)) = []"
    and "pendingCandidates (state_of (handleOffer br offer senderAddress s))
           = pendingCandidates s"
    and "connectionState (state_of (handleOffer br offer senderAddress s)) = ''failed''"
    and "outcome_of (handleOffer br offer senderAddress s) = Returned ()"
proof -
  from assms(4) show "applied_candidates (effects_of (handleOffer br offer senderAddress s)) = []"
    using assms(1,2,3)
    by (auto simp: handleOffer_def Let_def catch_failed_parts applied_append applied_notify)
  from assms(4) show "pendingCandidates (state_of (handleOffer br offer senderAddress s))
           = pendingCandidates s"
    using assms(1,2,3)
    by (auto simp: handleOffer_def Let_def catch_failed_parts)
  from assms(4) show "connectionState (state_of (handleOffer br offer senderAddress s)) = ''failed''"
    using assms(1,2,3)
    by (auto simp: handleOffer_def Let_def catch_failed_parts)
  from assms(4) show "outcome_of (handleOffer br offer senderAddress s) = Returned ()"
    using assms(1,2,3)
    by (auto simp: handleOffer_def Let_def catch_failed_parts)
qed

text \<open>
  Claim C2, as the manager implements it. A candidate that arrives while the peer
  connection has no remote description is appended to \<^verbatim>\<open>pendingCandidates\<close>:
  \<^verbatim>\<open>handleIceCandidate\<close> returns, hands nothing to \<^verbatim>\<open>addIceCandidate\<close> and changes
  nothing else. When \<^verbatim>\<open>handleAnswer\<close> has applied the remote answer, or
  \<^verbatim>\<open>handleOffer\<close> has applied the remote offer and then created and set its local
  answer, every queued candidate is handed to \<^verbatim>\<open>addIceCandidate\<close> exactly once, in
  arrival order and only after the call of \<^verbatim>\<open>setRemoteDescription\<close>, and the queue is
  empty afterwards. When \<^verbatim>\<open>handleOffer\<close> has applied the remote offer but
  \<^verbatim>\<open>createAnswer\<close> or \<^verbatim>\<open>setLocalDescription\<close> throws, the method still returns,
  no queued candidate is applied, the queue is kept as it was and the state is
  \<^verbatim>\<open>'failed'\<close>.
\<close>

theorem candidates_queued_then_drained:
  "(peerConnection s = Some pc \<and> remoteDescription pc = None \<longrightarrow>
      handleIceCandidate br cand s
        = (Returned (), s\<lparr>pendingCandidates := pendingCandidates s @ [cand]\<rparr>,
           [Console Log ''Queueing ICE candidate until remote description is set'']))
   \<and> (peerConnection s = Some pc \<and> signalingState pc = ''have-local-offer''
       \<and> setRemoteDescription br pc answer = Inr pa \<longrightarrow>
      applied_candidates (effects_of (handleAnswer br answer s)) = pendingCandidates s
      \<and> applied_candidates (before_remote (effects_of (handleAnswer br answer s))) = []
      \<and> pendingCandidates (state_of (handleAnswer br answer s)) = [])
   \<and> (peerConnection s = Some pc
       \<and> (signalingState pc = ''stable'' \<or> signalingState pc = ''have-local-offer'')
       \<and> setRemoteDescription br pc offer = Inr po
       \<and> createAnswer br po = Inr reply \<and> setLocalDescription br po reply = Inr po' \<longrightarrow>
      applied_candidates (effects_of (handleOffer br offer senderAddress s)) = pendingCandidates s
      \<and> applied_candidates (before_remote (effects_of (handleOffer br offer senderAddress s))) = []
      \<and> pendingCandidates (state_of (handleOffer br offer senderAddress s)) = [])
   \<and> (peerConnection s = Some pc
       \<and> (signalingState pc = ''stable'' \<or> signalingState pc = ''have-local-offer'')
       \<and> setRemoteDescription br pc offer = Inr po
       \<and> (createAnswer br po = Inl e
            \<or> (createAnswer br po = Inr reply \<and> setLocalDescription br po reply = Inl e)) \<longrightarrow>
      outcome_of (handleOffer br offer senderAddress s) = Returned ()
      \<and> applied_candidates (effects_of (handleOffer br offer senderAddress s)) = []
      \<and> pendingCandidates (state_of (handleOffer br offer senderAddress s)) = pendingCandidates s
      \<and> connectionState (state_of (handleOffer br offer senderAddress s)) = ''failed'')"
proof (intro conjI impI)
  assume "peerConnection s = Some pc \<and> remoteDescription pc = None"
  then show "handleIceCandidate br cand s
        = (Returned (), s\<lparr>pendingCandidates := pendingCandidates s @ [cand]\<rparr>,
           [Console Log ''Queueing ICE candidate until remote description is set''])"
    by (simp add: handleIceCandidate_def)
next
  assume a: "peerConnection s = Some pc \<and> signalingState pc = ''have-local-offer''
       \<and> setRemoteDescription br pc answer = Inr pa"
  then show "applied_candidates (effects_of (handleAnswer br answer s)) = pendingCandidates s"
    using handleAnswer_drains(1) by blast
  from a show "applied_candidates (before_remote (effects_of (handleAnswer br answer s))) = []"
    using handleAnswer_drains(2) by blast
  from a show "pendingCandidates (state_of (handleAnswer br answer s)) = []"
    using handleAnswer_drains(3) by blast
next
  assume a: "peerConnection s = Some pc
       \<and> (signalingState pc = ''stable'' \<or> signalingState pc = ''have-local-offer'')
       \<and> setRemoteDescription br pc offer = Inr po
       \<and> createAnswer br po = Inr reply \<and> setLocalDescription br po reply = Inr po'"
  then show "applied_candidates (effects_of (handleOffer br offer senderAddress s))
      = pendingCandidates s"
    using handleOffer_drains(1) by blast
  from a show "applied_candidates (before_remote (effects_of (handleOffer br offer senderAddress s)))
      = []"
    using handleOffer_drains(2) by blast
  from a show "pendingCandidates (state_of (handleOffer br offer senderAddress s)) = []"
    using handleOffer_drains(3) by blast
next
  assume a: "peerConnection s = Some pc
       \<and> (signalingState pc = ''stable'' \<or> signalingState pc = ''have-local-offer'')
       \<and> setRemoteDescription br pc offer = Inr po
       \<and> (createAnswer br po = Inl e
            \<or> (createAnswer br po = Inr reply \<and> setLocalDescription br po reply = Inl e))"
  then show "outcome_of (handleOffer br offer senderAddress s) = Returned ()"
    using handleOffer_answer_fails(4) by blast
  from a show "applied_candidates (effects_of (handleOffer br offer senderAddress s)) = []"
    using handleOffer_answer_fails(1) by blast
  from a show "pendingCandidates (state_of (handleOffer br offer senderAddress s))
      = pendingCandidates s"
    using handleOffer_answer_fails(2) by blast
  from a show "connectionState (state_of (handleOffer br offer senderAddress s)) = ''failed''"
    using handleOffer_answer_fails(3) by blast
qed

theorem candidates_queued_then_drained_witness:
  "peerConnection manager_queued
     = Some \<lparr>signalingState = ''have-local-offer'', remoteDescription = None, internal = 0\<rparr>
   \<and> pendingCandidates manager_queued = [''c1'', ''c2'']
   \<and> handleIceCandidate browser_ok ''c3'' manager_queued
       = (Returned (), manager_queued\<lparr>pendingCandidates := [''c1'', ''c2'', ''c3'']\<rparr>,
          [Console Log ''Queueing ICE candidate until remote description is set''])
   \<and> applied_candidates (effects_of
        (handleAnswer browser_ok (Description ''answer'' ''remote-sdp'') manager_queued))
       = [''c1'', ''c2'']
   \<and> pendingCandidates (state_of
        (handleAnswer browser_ok (Description ''answer'' ''remote-sdp'') manager_queued)) = []
   \<and> peerConnection manager_early
       = Some \<lparr>signalingState = ''stable'', remoteDescription = None, internal = 0\<rparr>
   \<and> pendingCandidates manager_early = [''c1'', ''c2'']
   \<and> applied_candidates (effects_of
        (handleOffer browser_ok (Description ''offer'' ''remote-sdp'') ''B'' manager_early))
       = [''c1'', ''c2'']
   \<and> pendingCandidates (state_of
        (handleOffer browser_ok (Description ''offer'' ''remote-sdp'') ''B'' manager_early)) = []
   \<and> pendingCandidates (state_of
        (handleOffer browser_no_answer (Description ''offer'' ''remote-sdp'') ''B'' manager_early))
       = [''c1'', ''c2'']"
proof -
  let ?pq = "\<lparr>signalingState = ''have-local-offer'', remoteDescription = None, internal = 0\<rparr>"
  let ?pe = "\<lparr>signalingState = ''stable'', remoteDescription = None, internal = 0\<rparr>"
  let ?ans = "Description ''answer'' ''remote-sdp''"
  let ?off = "Description ''offer'' ''remote-sdp''"
  let ?reply = "Description ''answer'' ''local-sdp''"
  let ?pa = "\<lparr>signalingState = ''stable'', remoteDescription = Some ?ans, internal = 0\<rparr>"
  let ?po = "\<lparr>signalingState = ''have-remote-offer'', remoteDescription = Some ?off,
               internal = 0\<rparr>"
  let ?po' = "\<lparr>signalingState = ''stable'', remoteDescription = Some ?off, internal = 0\<rparr>"
  have q: "peerConnection manager_queued = Some ?pq"
    "pendingCandidates manager_queued = [''c1'', ''c2'']"
    by (simp_all add: manager_queued_eq manager_offering_eq)
  have e: "peerConnection manager_early = Some ?pe"
    "pendingCandidates manager_early = [''c1'', ''c2'']"
    by (simp_all add: manager_early_eq manager_new_simps)
  have b1: "setRemoteDescription browser_ok ?pq ?ans = Inr ?pa"
    by (simp add: browser_ok_def)
  have b2: "setRemoteDescription browser_ok ?pe ?off = Inr ?po"
    "createAnswer browser_ok ?po = Inr ?reply"
    "setLocalDescription browser_ok ?po ?reply = Inr ?po'"
    by (simp_all add: browser_ok_def)
  have b3: "setRemoteDescription browser_no_answer ?pe ?off = Inr ?po"
    "createAnswer browser_no_answer ?po = Inl (DOMException ''OperationError'')"
    by (simp_all add: browser_ok_def browser_no_answer_def)
  note t1 = candidates_queued_then_drained [of manager_queued ?pq browser_ok "''c3'' " ?ans ?pa]
  note t2 = candidates_queued_then_drained [of manager_early ?pe browser_ok _ _ _ ?off ?po
      ?reply ?po' "''B''"]
  note t3 = candidates_queued_then_drained [of manager_early ?pe browser_no_answer _ _ _ ?off ?po
      ?reply _ "''B''" "DOMException ''OperationError''"]
  have w1: "handleIceCandidate browser_ok ''c3'' manager_queued
       = (Returned (), manager_queued\<lparr>pendingCandidates := [''c1'', ''c2'', ''c3'']\<rparr>,
          [Console Log ''Queueing ICE candidate until remote description is set''])"
    using t1 q by simp
  have w2: "applied_candidates (effects_of (handleAnswer browser_ok ?ans manager_queued))
       = [''c1'', ''c2'']"
    "pendingCandidates (state_of (handleAnswer browser_ok ?ans manager_queued)) = []"
    using t1 q b1 by simp_all
  have w3: "applied_candidates (effects_of (handleOffer browser_ok ?off ''B'' manager_early))
       = [''c1'', ''c2'']"
    "pendingCandidates (state_of (handleOffer browser_ok ?off ''B'' manager_early)) = []"
    using t2 e b2 by simp_all
  have w4: "pendingCandidates (state_of (handleOffer browser_no_answer ?off ''B'' manager_early))
       = [''c1'', ''c2'']"
    using t3 e b3 by simp
  show ?thesis using q e w1 w2 w3 w4 by blast
qed

text \<open>
  The claim as the specification words it drains the queue as soon as the remote
  description is applied. Two candidates are queued, the remote offer is applied, and
  \<^verbatim>\<open>createAnswer\<close> rejects: the remote description is set, no candidate has been
  applied, both are still queued, and the next candidate to arrive is applied ahead of
  them.
\<close>

theorem answer_failure_strands_candidates:
  "map_option remoteDescription (peerConnection (state_of
      (handleOffer browser_no_answer (Description ''offer'' ''remote-sdp'') ''B'' manager_early)))
     = Some (Some (Description ''offer'' ''remote-sdp''))
   \<and> applied_candidates (effects_of
        (handleOffer browser_no_answer (Description ''offer'' ''remote-sdp'') ''B'' manager_early))
       = []
   \<and> pendingCandidates (state_of
        (handleOffer browser_no_answer (Description ''offer'' ''remote-sdp'') ''B'' manager_early))
       = [''c1'', ''c2'']
   \<and> applied_candidates (effects_of (handleIceCandidate browser_no_answer ''c3'' (state_of
        (handleOffer browser_no_answer (Description ''offer'' ''remote-sdp'') ''B'' manager_early))))
       = [''c3'']"
  by (simp add: handleOffer_def handleIceCandidate_def manager_early_eq manager_new_simps
      browser_no_answer_def browser_ok_def catch_failed_def notify_def state_of_def effects_of_def
      manager_new_def new_WebRTCManager_def setupPeerConnection_def Let_def)

subsection \<open>Offers and answers in the wrong signaling state\<close>

text \<open>
  Claim C4. An offer that arrives while the signaling state is neither \<^verbatim>\<open>'stable'\<close>
  nor \<^verbatim>\<open>'have-local-offer'\<close>, and an answer that arrives while it is not
  \<^verbatim>\<open>'have-local-offer'\<close>, is dropped: the method returns without throwing, the manager
  is exactly what it was, and the only effects are the log line and the warning.
\<close>

theorem incompatible_discarded:
  "(peerConnection s = Some pc \<and> signalingState pc \<noteq> ''stable''
      \<and> signalingState pc \<noteq> ''have-local-offer''
    \<longrightarrow> handleOffer br offer senderAddress s
          = (Returned (), s,
             [Console Log ''Handling offer from:'', Console Warn ''Ignoring offer in state:'']))
   \<and> (peerConnection s = Some pc \<and> signalingState pc \<noteq> ''have-local-offer''
    \<longrightarrow> handleAnswer br answer s
          = (Returned (), s,
             [Console Log ''Handling answer'', Console Warn ''Ignoring answer in state:'']))"
  by (simp add: handleOffer_def handleAnswer_def)

theorem incompatible_discarded_witness:
  "peerConnection manager_answering = Some \<lparr>signalingState = ''have-remote-offer'',
        remoteDescription = Some (Description ''offer'' ''remote-sdp''), internal = 0\<rparr>
   \<and> handleOffer browser_ok (Description ''offer'' ''second-sdp'') ''B'' manager_answering
       = (Returned (), manager_answering,
          [Console Log ''Handling offer from:'', Console Warn ''Ignoring offer in state:''])
   \<and> handleAnswer browser_ok (Description ''answer'' ''remote-sdp'') manager_answering
       = (Returned (), manager_answering,
          [Console Log ''Handling answer'', Console Warn ''Ignoring answer in state:''])"
proof -
  have pc: "peerConnection manager_answering = Some \<lparr>signalingState = ''have-remote-offer'',
        remoteDescription = Some (Description ''offer'' ''remote-sdp''), internal = 0\<rparr>"
    by (simp add: manager_answering_def)
  show ?thesis
    using pc incompatible_discarded [of manager_answering
        "\<lparr>signalingState = ''have-remote-offer'',
          remoteDescription = Some (Description ''offer'' ''remote-sdp''), internal = 0\<rparr>"
        browser_ok "Description ''offer'' ''second-sdp''" "''B''"
        "Description ''answer'' ''remote-sdp''"]
    by simp
qed

subsection \<open>Closing\<close>

text \<open>
  Claim C5. \<^verbatim>\<open>close\<close> returns without throwing from every state; closing a second
  time returns too and gives the same manager as closing once, with nothing left to
  release (its only effect is the log line). After \<^verbatim>\<open>close\<close> the state is
  \<^verbatim>\<open>'closed'\<close>, also as \<^verbatim>\<open>getConnectionState\<close> reports it, the queue of pending
  candidates is empty, and the data channel, the media stream and the peer connection are
  released: each one the manager held has been closed or stopped, and the fields are
  \<^verbatim>\<open>null\<close>.
\<close>

theorem close_idempotent:
  "outcome_of (close s) = Returned ()
   \<and> state_of (close (state_of (close s))) = state_of (close s)
   \<and> outcome_of (close (state_of (close s))) = Returned ()
   \<and> effects_of (close (state_of (close s))) = [Console Log ''Closing WebRTC connection'']
   \<and> connectionState (state_of (close s)) = ''closed''
   \<and> getConnectionState (state_of (close s)) = ''closed''
   \<and> pendingCandidates (state_of (close s)) = []
   \<and> dataChannel (state_of (close s)) = None
   \<and> localStream (state_of (close s)) = None
   \<and> peerConnection (state_of (close s)) = None
   \<and> (dataChannel s = None \<or> ChannelClose \<in> set (effects_of (close s)))
   \<and> (peerConnection s = None \<or> PcCall ClosePc \<in> set (effects_of (close s)))
   \<and> (case localStream s of
         None \<Rightarrow> True
       | Some stream \<Rightarrow> set (map TrackStop (getTracks stream)) \<subseteq> set (effects_of (close s)))"
  by (cases "dataChannel s"; cases "peerConnection s"; cases "localStream s")
    (auto simp: close_def outcome_of_def state_of_def effects_of_def getConnectionState_def)

theorem close_idempotent_witness:
  "state_of (close (state_of (close manager_open))) = state_of (close manager_open)
   \<and> connectionState (state_of (close manager_open)) = ''closed''
   \<and> effects_of (close manager_open)
       = [Console Log ''Closing WebRTC connection'', ChannelClose, PcCall ClosePc]"
proof -
  have "effects_of (close manager_open)
       = [Console Log ''Closing WebRTC connection'', ChannelClose, PcCall ClosePc]"
    by (simp add: close_def effects_of_def manager_open_def manager_offering_eq channel_event_def
        manager_new_simps)
  then show ?thesis using close_idempotent [of manager_open] by simp
qed

text \<open>
  Claim C9. \<^verbatim>\<open>close\<close> leaves the manager without a peer connection, and on a manager
  without a peer connection \<^verbatim>\<open>initiateConnection\<close>, \<^verbatim>\<open>handleOffer\<close>,
  \<^verbatim>\<open>handleAnswer\<close> and \<^verbatim>\<open>handleIceCandidate\<close> each return without throwing, leave
  the manager as it is (so the next call finds it without a peer connection again) and
  do nothing but write to the console: no call on a peer connection, no emit.
\<close>

theorem after_close_inert:
  "peerConnection (state_of (close s)) = None
   \<and> (peerConnection t = None \<longrightarrow>
        initiateConnection br remote t
          = (Returned (), t,
             [Console Log ''Initiating connection to:'',
              Console Err ''No peer connection available''])
      \<and> handleOffer br offer senderAddress t
          = (Returned (), t,
             [Console Log ''Handling offer from:'', Console Err ''No peer connection available''])
      \<and> handleAnswer br answer t
          = (Returned (), t,
             [Console Log ''Handling answer'', Console Err ''No peer connection available''])
      \<and> handleIceCandidate br cand t
          = (Returned (), t, [Console Err ''No peer connection available for ICE candidate'']))"
  by (simp add: close_def state_of_def initiateConnection_def handleOffer_def handleAnswer_def
      handleIceCandidate_def)

theorem after_close_inert_witness:
  "peerConnection (state_of (close manager_open)) = None
   \<and> handleOffer browser_ok (Description ''offer'' ''remote-sdp'') ''B''
        (state_of (close manager_open))
       = (Returned (), state_of (close manager_open),
          [Console Log ''Handling offer from:'', Console Err ''No peer connection available''])
   \<and> handleIceCandidate browser_ok ''c1'' (state_of (close manager_open))
       = (Returned (), state_of (close manager_open),
          [Console Err ''No peer connection available for ICE candidate''])"
  using after_close_inert [of manager_open "state_of (close manager_open)" browser_ok "''B''"
      "Description ''offer'' ''remote-sdp''" "''B''" "Description ''answer'' ''remote-sdp''"
      "''c1''"]
  by blast

subsection \<open>Sending over the data channel\<close>

text \<open>
  Claim C6, as the manager implements it. \<^verbatim>\<open>sendMessage\<close> returns \<^verbatim>\<open>true\<close> only
  when the manager holds a data channel whose \<^verbatim>\<open>readyState\<close> is \<^verbatim>\<open>'open'\<close>, and
  then the message has been sent over that channel. With no open channel it returns
  \<^verbatim>\<open>false\<close> without throwing and with no effect. With an open channel it hands the
  message to \<^verbatim>\<open>dataChannel.send\<close>: it returns \<^verbatim>\<open>true\<close> when that call returns, and
  when that call throws, the error leaves \<^verbatim>\<open>sendMessage\<close> and nothing has been sent.
  In every case the manager is unchanged: the message is kept nowhere.
\<close>

theorem send_true_only_when_open:
  "(outcome_of (sendMessage br message s) = Returned True \<longrightarrow>
      channel_open s \<and> effects_of (sendMessage br message s) = [ChannelSend message])
   \<and> (\<not> channel_open s \<longrightarrow> sendMessage br message s = (Returned False, s, []))
   \<and> (dataChannel s = Some dc \<and> readyState dc = ''open''
        \<and> channelSend br dc message = Inr () \<longrightarrow>
      sendMessage br message s = (Returned True, s, [ChannelSend message]))
   \<and> (dataChannel s = Some dc \<and> readyState dc = ''open''
        \<and> channelSend br dc message = Inl e \<longrightarrow>
      sendMessage br message s = (Threw e, s, []))
   \<and> state_of (sendMessage br message s) = s"
  by (auto simp: sendMessage_def channel_open_def outcome_of_def effects_of_def state_of_def
      split: option.splits sum.splits)

theorem send_true_only_when_open_witness:
  "channel_open manager_open
   \<and> sendMessage browser_ok (P2PMessage ''1'' ''text'' ''hi'' 0 ''A'') manager_open
       = (Returned True, manager_open, [ChannelSend (P2PMessage ''1'' ''text'' ''hi'' 0 ''A'')])
   \<and> channelSend browser_send_fails \<lparr>label = ''messages'', readyState = ''open''\<rparr>
        (P2PMessage ''1'' ''text'' ''hi'' 0 ''A'') = Inl (DOMException ''OperationError'')
   \<and> sendMessage browser_send_fails (P2PMessage ''1'' ''text'' ''hi'' 0 ''A'') manager_open
       = (Threw (DOMException ''OperationError''), manager_open, [])
   \<and> \<not> channel_open manager_offering
   \<and> sendMessage browser_ok (P2PMessage ''1'' ''text'' ''hi'' 0 ''A'') manager_offering
       = (Returned False, manager_offering, [])"
proof -
  let ?m = "P2PMessage ''1'' ''text'' ''hi'' 0 ''A''"
  let ?dc = "\<lparr>label = ''messages'', readyState = ''open''\<rparr>"
  have op: "channel_open manager_open"
    by (simp add: channel_open_def manager_open_channel)
  have cl: "\<not> channel_open manager_offering"
    by (simp add: channel_open_def manager_offering_eq)
  have dc: "dataChannel manager_open = Some ?dc" "readyState ?dc = ''open''"
    by (simp_all add: manager_open_channel)
  have ok: "channelSend browser_ok ?dc ?m = Inr ()"
    by (simp add: browser_ok_def)
  have bad: "channelSend browser_send_fails ?dc ?m = Inl (DOMException ''OperationError'')"
    by (simp add: browser_send_fails_def)
  show ?thesis
    using op cl dc ok bad
      send_true_only_when_open [of browser_ok ?m manager_open ?dc]
      send_true_only_when_open [of browser_send_fails ?m manager_open ?dc
        "DOMException ''OperationError''"]
      send_true_only_when_open [of browser_ok ?m manager_offering]
    by blast
qed

text \<open>
  The claim as the specification words it has the message sent whenever the channel is
  open, and no call of \<^verbatim>\<open>send\<close> throw. The channel is open and cannot queue the
  message: \<^verbatim>\<open>sendMessage\<close> throws, and nothing is sent.
\<close>

theorem send_throws_on_open_channel:
  "channel_open manager_open
   \<and> sendMessage browser_send_fails (P2PMessage ''1'' ''text'' ''hi'' 0 ''A'') manager_open
       = (Threw (DOMException ''OperationError''), manager_open, [])"
  by (simp add: channel_open_def sendMessage_def manager_open_channel browser_send_fails_def)

subsection \<open>Initiating twice\<close>

text \<open>
  The guard of \<^verbatim>\<open>initiateConnection\<close> tests the field \<^verbatim>\<open>connectionState\<close>: when
  the field is \<^verbatim>\<open>'connecting'\<close> or \<^verbatim>\<open>'connected'\<close> and the remote identity is the
  one the manager already has, the call returns at once with the manager unchanged and
  console lines as its only effects.
\<close>

lemma initiateConnection_guard_noop:
  assumes "remoteAddress s = remote"
    and "connectionState s = ''connecting'' \<or> connectionState s = ''connected''"
  shows "outcome_of (initiateConnection br remote s) = Returned ()
       \<and> state_of (initiateConnection br remote s) = s
       \<and> list_all is_console (effects_of (initiateConnection br remote s))
       \<and> emitted (effects_of (initiateConnection br remote s)) = []"
  using assms
  by (auto simp: initiateConnection_def outcome_of_def state_of_def effects_of_def
      split: option.splits)

lemma manager_connected_eq:
  "manager_connected =
     manager_offering\<lparr>
        peerConnection := Some \<lparr>signalingState = ''stable'',
           remoteDescription = Some (Description ''answer'' ''remote-sdp''), internal = 0\<rparr>,
        dataChannel := Some \<lparr>label = ''messages'', readyState = ''open''\<rparr>\<rparr>"
  by (simp add: manager_connected_def handleAnswer_def processPendingCandidates_def
      channel_event_def browser_strict_def browser_ok_def state_of_def manager_offering_eq
      manager_new_simps)

lemma manager_stale_eq:
  "manager_stale = manager_connected\<lparr>isInitiator := False, connectionState := ''failed''\<rparr>"
  by (simp add: manager_stale_def handleOffer_def catch_failed_def state_of_def
      browser_strict_def browser_ok_def manager_connected_eq manager_offering_eq
      manager_new_simps Let_def)

lemma reachable_manager_stale: "reachable manager_stale"
  unfolding manager_stale_def manager_connected_def manager_offering_def manager_new_def
  by (intro reachable.intros)

text \<open>
  Claim C7 asks that \<^verbatim>\<open>initiateConnection\<close> toward the remote identity of a session
  that is already connecting or connected be a no-op: no new data channel, no new offer,
  nothing changed. The manager does not keep that for every connected session. The field
  the guard tests is never \<^verbatim>\<open>'connected'\<close>; a session is connected when its data
  channel is open, which is what \<^verbatim>\<open>getConnectionState\<close> reports. Here \<open>A\<close> is
  connected to \<open>B\<close>, a later offer of \<open>B\<close> has failed and left the field at
  \<^verbatim>\<open>'failed'\<close> with the channel still open: \<^verbatim>\<open>getConnectionState\<close> returns
  \<^verbatim>\<open>'connected'\<close>, and \<^verbatim>\<open>initiateConnection\<close> toward \<open>B\<close> emits a new
  \<^verbatim>\<open>webrtc-offer\<close> and puts a new, unopened data channel in place of the open one.
\<close>

theorem initiate_on_connected_renegotiates:
  "reachable manager_stale
   \<and> remoteAddress manager_stale = ''B''
   \<and> connectionState manager_stale = ''failed''
   \<and> dataChannel manager_stale = Some \<lparr>label = ''messages'', readyState = ''open''\<rparr>
   \<and> getConnectionState manager_stale = ''connected''
   \<and> outcome_of (initiateConnection browser_ok ''B'' manager_stale) = Returned ()
   \<and> emitted (effects_of (initiateConnection browser_ok ''B'' manager_stale))
       = [(''webrtc-offer'', OfferTo (Description ''offer'' ''local-sdp'') ''B'' ''A'')]
   \<and> dataChannel (state_of (initiateConnection browser_ok ''B'' manager_stale))
       = Some \<lparr>label = ''messages'', readyState = ''connecting''\<rparr>
   \<and> getConnectionState (state_of (initiateConnection browser_ok ''B'' manager_stale))
       = ''connecting''"
proof -
  have f: "remoteAddress manager_stale = ''B''"
    "connectionState manager_stale = ''failed''"
    "dataChannel manager_stale = Some \<lparr>label = ''messages'', readyState = ''open''\<rparr>"
    "peerConnection manager_stale = Some \<lparr>signalingState = ''stable'',
       remoteDescription = Some (Description ''answer'' ''remote-sdp''), internal = 0\<rparr>"
    "socket manager_stale = Some ''sock''"
    "localAddress manager_stale = ''A''"
    by (simp_all add: manager_stale_eq manager_connected_eq manager_offering_eq manager_new_simps)
  have g: "getConnectionState manager_stale = ''connected''"
    by (simp add: getConnectionState_def f)
  have i: "initiateConnection browser_ok ''B'' manager_stale =
      (Returned (),
       manager_stale\<lparr>remoteAddress := ''B'', isInitiator := True,
          dataChannel := Some \<lparr>label = ''messages'', readyState = ''connecting''\<rparr>,
          peerConnection := Some \<lparr>signalingState = ''have-local-offer'',
             remoteDescription = Some (Description ''answer'' ''remote-sdp''), internal = 0\<rparr>,
          connectionState := ''connecting''\<rparr>,
       [Console Log ''Initiating connection to:'', PcCall (CreateDataChannel ''messages''),
        PcCall CreateOffer, PcCall (SetLocalDescription (Description ''offer'' ''local-sdp'')),
        Console Log ''Local description (offer) set successfully'',
        SocketEmit ''webrtc-offer'' (OfferTo (Description ''offer'' ''local-sdp'') ''B'' ''A'')])"
    by (simp add: initiateConnection_def f browser_ok_def emit_def setupDataChannel_def Let_def)
  show ?thesis
    using reachable_manager_stale f(1,2,3) g
    by (simp add: i outcome_of_def state_of_def effects_of_def getConnectionState_def)
qed

subsection \<open>Starting a call\<close>

lemma emitted_append: "emitted (fx @ gx) = emitted fx @ emitted gx"
  by (induction fx rule: emitted.induct) simp_all

lemma emitted_addTracks: "emitted (snd (snd (addTracks br pco ts))) = []"
proof (induction br pco ts rule: addTracks.induct)
  case (1 br pco)
  show ?case by simp
next
  case (2 br t ts)
  show ?case by simp
next
  case (3 br pc t ts)
  show ?case
  proof (cases "addTrack br pc t")
    case (Inl e)
    then show ?thesis by simp
  next
    case (Inr pc1)
    obtain r pco fx where a: "addTracks br (Some pc1) ts = (r, pco, fx)"
      by (cases "addTracks br (Some pc1) ts") auto
    have "emitted fx = []" using 3 [OF Inr] a by simp
    then show ?thesis using Inr a by simp
  qed
qed

lemma startCall_no_media:
  "getUserMedia br video = Inl e \<Longrightarrow>
   startCall br video s = (Threw e, s, [GetUserMedia video, Console Err ''Failed to start call:''])"
  by (simp add: startCall_def rethrow_def)

lemma startCall_connectionState:
  "connectionState (state_of (startCall br video s)) = connectionState s"
  "dataChannel (state_of (startCall br video s)) = dataChannel s"
  by (auto simp: startCall_def rethrow_def state_of_def Let_def
      split: sum.splits option.splits prod.splits)

lemma startCall_success:
  assumes "outcome_of (startCall br video s) = Returned ()"
  shows "\<exists>offer. emitted (effects_of (startCall br video s))
           = [(''webrtc-call-offer'', CallOfferTo offer (remoteAddress s) (localAddress s) video)]"
proof (cases "getUserMedia br video")
  case (Inl e)
  then show ?thesis using assms by (simp add: startCall_def rethrow_def outcome_of_def)
next
  case (Inr stream)
  obtain r pco fx where a: "addTracks br (peerConnection s) (getTracks stream) = (r, pco, fx)"
    by (cases "addTracks br (peerConnection s) (getTracks stream)") auto
  have fx: "emitted fx = []" using emitted_addTracks [of br "peerConnection s" "getTracks stream"] a
    by simp
  show ?thesis
    using assms Inr a fx
    by (auto simp: startCall_def rethrow_def outcome_of_def effects_of_def Let_def emit_def
        emitted_append split: sum.splits option.splits)
qed

text \<open>
  Claim C8, as the manager implements it. When \<^verbatim>\<open>getUserMedia\<close> fails,
  \<^verbatim>\<open>startCall\<close> logs the error and throws it again to the caller, emits nothing, and
  leaves the manager exactly as it was: nothing is closed. When \<^verbatim>\<open>startCall\<close> returns,
  it has emitted exactly one event, a \<^verbatim>\<open>webrtc-call-offer\<close> to the remote identity.
  In every case the connection state is unchanged, both the field and what
  \<^verbatim>\<open>getConnectionState\<close> reports.
\<close>

theorem startCall_media_failure_rethrown:
  "(getUserMedia br video = Inl e \<longrightarrow>
      startCall br video s
        = (Threw e, s, [GetUserMedia video, Console Err ''Failed to start call:'']))
   \<and> (outcome_of (startCall br video s) = Returned () \<longrightarrow>
      (\<exists>offer. emitted (effects_of (startCall br video s))
         = [(''webrtc-call-offer'',
             CallOfferTo offer (remoteAddress s) (localAddress s) video)]))
   \<and> connectionState (state_of (startCall br video s)) = connectionState s
   \<and> getConnectionState (state_of (startCall br video s)) = getConnectionState s"
  using startCall_no_media [of br video e s] startCall_success [of br video s]
    startCall_connectionState [of br video s]
  by (simp add: getConnectionState_def split: option.splits)

theorem startCall_media_failure_rethrown_witness:
  "getUserMedia browser_no_media True = Inl (DOMException ''NotAllowedError'')
   \<and> startCall browser_no_media True manager_offering
       = (Threw (DOMException ''NotAllowedError''), manager_offering,
          [GetUserMedia True, Console Err ''Failed to start call:''])
   \<and> outcome_of (startCall browser_ok True manager_offering) = Returned ()
   \<and> emitted (effects_of (startCall browser_ok True manager_offering))
       = [(''webrtc-call-offer'',
           CallOfferTo (Description ''offer'' ''local-sdp'') ''B'' ''A'' True)]
   \<and> connectionState (state_of (startCall browser_ok True manager_offering)) = ''connecting''"
proof -
  have f: "getUserMedia browser_no_media True = Inl (DOMException ''NotAllowedError'')"
    by (simp add: browser_no_media_def browser_ok_def)
  have ok: "outcome_of (startCall browser_ok True manager_offering) = Returned ()"
    by (simp add: startCall_def outcome_of_def browser_ok_def manager_offering_eq
        manager_new_simps emit_def Let_def)
  have em: "emitted (effects_of (startCall browser_ok True manager_offering))
       = [(''webrtc-call-offer'',
           CallOfferTo (Description ''offer'' ''local-sdp'') ''B'' ''A'' True)]"
    by (simp add: startCall_def effects_of_def browser_ok_def manager_offering_eq
        manager_new_simps emit_def Let_def)
  have c: "connectionState manager_offering = ''connecting''"
    by (simp add: manager_offering_eq)
  show ?thesis
    using f ok em c
      startCall_media_failure_rethrown [of browser_no_media True
        "DOMException ''NotAllowedError''" manager_offering]
      startCall_media_failure_rethrown [of browser_ok True _ manager_offering]
    by simp
qed

text \<open>
  The claim as the specification words it has the session closed when the media cannot
  be acquired. The user denies the microphone while the manager is connecting to \<open>B\<close>:
  \<^verbatim>\<open>startCall\<close> throws, and the manager is still connecting, with its peer connection
  and its data channel in place.
\<close>

theorem media_failure_leaves_session_open:
  "getUserMedia browser_no_media False = Inl (DOMException ''NotAllowedError'')
   \<and> outcome_of (startCall browser_no_media False manager_offering)
       = Threw (DOMException ''NotAllowedError'')
   \<and> connectionState (state_of (startCall browser_no_media False manager_offering))
       = ''connecting''
   \<and> peerConnection (state_of (startCall browser_no_media False manager_offering))
       = Some \<lparr>signalingState = ''have-local-offer'', remoteDescription = None, internal = 0\<rparr>
   \<and> dataChannel (state_of (startCall browser_no_media False manager_offering))
       = Some \<lparr>label = ''messages'', readyState = ''connecting''\<rparr>"
  by (simp add: startCall_def rethrow_def browser_no_media_def browser_ok_def outcome_of_def
      state_of_def manager_offering_eq manager_new_simps)

subsection \<open>The connection state of a reachable manager\<close>

lemma catch_failed_state:
  "connectionState (state_of (catch_failed msg s fx)) = ''failed''"
  by (simp add: catch_failed_def state_of_def)

lemma initiateConnection_connectionState:
  "connectionState (state_of (initiateConnection br remote s))
     \<in> {connectionState s, ''connecting'', ''failed''}"
  by (auto simp: initiateConnection_def state_of_def catch_failed_def Let_def
      split: option.splits sum.splits)

lemma handleOffer_connectionState:
  "connectionState (state_of (handleOffer br offer senderAddress s))
     \<in> {connectionState s, ''connecting'', ''failed''}"
proof -
  have "\<And>t. connectionState (fst (processPendingCandidates br t)) = connectionState t"
    by (rule processPending_fields)
  then show ?thesis
    by (auto simp: handleOffer_def state_of_def catch_failed_def Let_def
        split: option.splits sum.splits prod.splits)
qed

lemma handleAnswer_connectionState:
  "connectionState (state_of (handleAnswer br answer s))
     \<in> {connectionState s, ''connecting'', ''failed''}"
  by (auto simp: handleAnswer_def state_of_def catch_failed_def Let_def
      split: option.splits sum.splits prod.splits)

lemma handleIceCandidate_connectionState:
  "connectionState (state_of (handleIceCandidate br cand s)) = connectionState s"
  by (auto simp: handleIceCandidate_def state_of_def split: option.splits sum.splits)

lemma sendMessage_state: "state_of (sendMessage br message s) = s"
  by (simp add: sendMessage_def state_of_def split: option.splits sum.splits)

lemma reachable_not_connected:
  "reachable s \<Longrightarrow> connectionState s \<noteq> ''connected''"
proof (induction rule: reachable.induct)
  case (r_new sock addr)
  show ?case by (simp add: new_WebRTCManager_def setupPeerConnection_def)
next
  case (r_initiateConnection s br remote)
  then show ?case using initiateConnection_connectionState [of br remote s] by auto
next
  case (r_handleOffer s br offer senderAddress)
  then show ?case using handleOffer_connectionState [of br offer senderAddress s] by auto
next
  case (r_handleAnswer s br answer)
  then show ?case using handleAnswer_connectionState [of br answer s] by auto
next
  case (r_handleIceCandidate s br cand)
  then show ?case by (simp add: handleIceCandidate_connectionState)
next
  case (r_sendMessage s br message)
  then show ?case by (simp add: sendMessage_state)
next
  case (r_startCall s br video)
  then show ?case by (simp add: startCall_connectionState)
next
  case (r_onMessage s cb)
  then show ?case by (simp add: onMessage_def)
next
  case (r_onConnectionState s cb)
  then show ?case by (simp add: onConnectionState_def)
next
  case (r_close s)
  show ?case by (simp add: close_def state_of_def)
next
  case (r_reset s)
  show ?case by (simp add: reset_def state_of_def)
next
  case (r_datachannel s channel)
  then show ?case by (simp add: setupDataChannel_def)
next
  case (r_channel_event s r)
  then show ?case by (simp add: channel_event_def split: option.splits)
next
  case (r_pc_event s pc')
  then show ?case by (simp add: pc_event_def split: option.splits)
qed

lemma reachable_manager_open: "reachable manager_open"
  unfolding manager_open_def manager_offering_def manager_new_def
  by (intro reachable.intros)

text \<open>
  Claim C10, as the manager implements it. On every reachable manager \<^verbatim>\<open>sendMessage\<close>
  returns \<^verbatim>\<open>false\<close> exactly when \<^verbatim>\<open>getConnectionState\<close> returns something other
  than \<^verbatim>\<open>'connected'\<close>, and returns \<^verbatim>\<open>true\<close> only when it returns
  \<^verbatim>\<open>'connected'\<close>: both test the data channel for \<^verbatim>\<open>readyState\<close> \<^verbatim>\<open>'open'\<close>, and
  the field \<^verbatim>\<open>connectionState\<close>, which \<^verbatim>\<open>getConnectionState\<close> falls back to, is
  never assigned \<^verbatim>\<open>'connected'\<close>. So a caller that has just read \<^verbatim>\<open>'connected'\<close>
  never gets \<^verbatim>\<open>false\<close> back. When the state is \<^verbatim>\<open>'connected'\<close>, \<^verbatim>\<open>sendMessage\<close>
  returns \<^verbatim>\<open>true\<close> if \<^verbatim>\<open>dataChannel.send\<close> returns, and throws what
  \<^verbatim>\<open>dataChannel.send\<close> throws.
\<close>

theorem send_false_iff_not_connected:
  assumes "reachable s"
  shows "(outcome_of (sendMessage br message s) = Returned False)
           = (getConnectionState s \<noteq> ''connected'')
       \<and> (outcome_of (sendMessage br message s) = Returned True
            \<longrightarrow> getConnectionState s = ''connected'')
       \<and> (dataChannel s = Some dc \<and> channelSend br dc message = Inr () \<longrightarrow>
            (outcome_of (sendMessage br message s) = Returned True)
              = (getConnectionState s = ''connected''))
       \<and> (dataChannel s = Some dc \<and> channelSend br dc message = Inl e
            \<and> getConnectionState s = ''connected'' \<longrightarrow>
            outcome_of (sendMessage br message s) = Threw e)"
  using reachable_not_connected [OF assms]
  by (auto simp: sendMessage_def getConnectionState_def outcome_of_def
      split: option.splits sum.splits)

theorem send_false_iff_not_connected_witness:
  "reachable manager_open
   \<and> getConnectionState manager_open = ''connected''
   \<and> outcome_of (sendMessage browser_ok (P2PMessage ''1'' ''text'' ''hi'' 0 ''A'') manager_open)
       = Returned True
   \<and> outcome_of (sendMessage browser_send_fails (P2PMessage ''1'' ''text'' ''hi'' 0 ''A'')
        manager_open) = Threw (DOMException ''OperationError'')
   \<and> reachable manager_offering
   \<and> getConnectionState manager_offering = ''connecting''
   \<and> outcome_of (sendMessage browser_ok (P2PMessage ''1'' ''text'' ''hi'' 0 ''A'')
        manager_offering) = Returned False"
proof -
  let ?m = "P2PMessage ''1'' ''text'' ''hi'' 0 ''A''"
  let ?dc = "\<lparr>label = ''messages'', readyState = ''open''\<rparr>"
  have r1: "reachable manager_open" by (rule reachable_manager_open)
  have r2: "reachable manager_offering"
    unfolding manager_offering_def manager_new_def by (intro reachable.intros)
  have g1: "getConnectionState manager_open = ''connected''"
    by (simp add: getConnectionState_def manager_open_channel)
  have g2: "getConnectionState manager_offering = ''connecting''"
    by (simp add: getConnectionState_def manager_offering_eq manager_new_simps)
  have dc: "dataChannel manager_open = Some ?dc" by (rule manager_open_channel)
  have ok: "channelSend browser_ok ?dc ?m = Inr ()"
    by (simp add: browser_ok_def)
  have bad: "channelSend browser_send_fails ?dc ?m = Inl (DOMException ''OperationError'')"
    by (simp add: browser_send_fails_def)
  have w1: "outcome_of (sendMessage browser_ok ?m manager_open) = Returned True"
    using send_false_iff_not_connected [OF r1, of browser_ok ?m ?dc] dc ok g1 by simp
  have w2: "outcome_of (sendMessage browser_send_fails ?m manager_open)
      = Threw (DOMException ''OperationError'')"
    using send_false_iff_not_connected [OF r1, of browser_send_fails ?m ?dc
        "DOMException ''OperationError''"] dc bad g1 by simp
  have w3: "outcome_of (sendMessage browser_ok ?m manager_offering) = Returned False"
    using send_false_iff_not_connected [OF r2, of browser_ok ?m] g2 by simp
  show ?thesis using r1 r2 g1 g2 w1 w2 w3 by blast
qed

text \<open>
  The claim as the specification words it has \<^verbatim>\<open>sendMessage\<close> return \<^verbatim>\<open>true\<close>
  whenever \<^verbatim>\<open>getConnectionState\<close> returns \<^verbatim>\<open>'connected'\<close>. The manager is reachable
  and connected, the channel cannot queue the message, and \<^verbatim>\<open>sendMessage\<close> throws
  instead of returning \<^verbatim>\<open>true\<close>.
\<close>

theorem connected_send_can_throw:
  "reachable manager_open
   \<and> getConnectionState manager_open = ''connected''
   \<and> outcome_of (sendMessage browser_send_fails (P2PMessage ''1'' ''text'' ''hi'' 0 ''A'')
        manager_open) = Threw (DOMException ''OperationError'')
   \<and> outcome_of (sendMessage browser_send_fails (P2PMessage ''1'' ''text'' ''hi'' 0 ''A'')
        manager_open) \<noteq> Returned True"
  using reachable_manager_open
  by (simp add: getConnectionState_def sendMessage_def outcome_of_def manager_open_channel
      browser_send_fails_def)

end
